theory Spec2Isabelle
  imports Main "HOL-Library.Word"
begin

section \<open>Data of the editor protocol and of the analysis engine\<close>

text \<open>
  The class \<open>Connection\<close> bridges an editor protocol connection and the TypeScript
  project service. Both collaborators are outside the repository, so they appear here as
  data: what the connection sends and what it asks the engine to do is appended to a
  trace of effects, and what the engine answers is read from a record of functions.
\<close>

datatype ScriptKind = Unknown | JS | JSX | TS | TSX | External | JSON | Deferred

record Position =
  line :: nat
  character :: nat

record Range =
  rangeStart :: Position
  rangeEnd :: Position

text \<open>\<open>lsp.Range.create(0, 0, 0, 0)\<close>, the range used for files without a script info.\<close>

definition EMPTY_RANGE :: Range where
  "EMPTY_RANGE =
     \<lparr>rangeStart = \<lparr>line = 0, character = 0\<rparr>, rangeEnd = \<lparr>line = 0, character = 0\<rparr>\<rparr>"

text \<open>A text span of the engine; the engine builds spans with non-negative fields only.\<close>

record TextSpan =
  spanStart :: nat
  spanLength :: nat

text \<open>A thrown JavaScript value; \<open>stack\<close> is absent on values that are not errors.\<close>

record JsError =
  message :: string
  stack :: "string option"

record ScriptInfo =
  fileName :: string
  snapshot :: "16 word list"

text \<open>A project of the engine; \<open>fileNames\<close> stands for what \<open>project.getFileNames()\<close> lists.\<close>

record Project =
  projectName :: string
  languageServiceEnabled :: bool
  fileNames :: "string list"

record TsDiagnostic =
  category :: nat
  code :: nat
  messageText :: string
  diagStart :: nat
  diagLength :: nat

record LspDiagnostic =
  range :: Range
  severity :: nat
  diagCode :: nat
  diagMessage :: string

record CompletionEntry =
  name :: string
  kind :: string
  sortText :: string
  insertText :: "string option"

record CompletionInfo =
  entries :: "CompletionEntry list"

record CompletionItem =
  label :: string
  itemKind :: nat
  detail :: string
  itemSortText :: string
  itemInsertText :: "string option"

record DefinitionInfo =
  defFileName :: string
  defTextSpan :: TextSpan

record DefinitionInfoAndBoundSpan =
  definitions :: "DefinitionInfo list option"
  textSpan :: TextSpan

record LocationLink =
  originSelectionRange :: Range
  targetUri :: string
  targetRange :: Range
  targetSelectionRange :: Range

record LanguageService =
  getSemanticDiagnostics :: "string \<Rightarrow> TsDiagnostic list"
  getDefinitionAndBoundSpan :: "string \<Rightarrow> nat \<Rightarrow> DefinitionInfoAndBoundSpan option"
  getCompletionsAtPosition :: "string \<Rightarrow> nat \<Rightarrow> CompletionInfo option"

text \<open>What \<open>openClientFile\<close> returns: both fields may be undefined.\<close>

record OpenConfiguredProjectResult =
  configFileName :: "string option"
  configFileErrors :: "string list option"

text \<open>
  The answers of the project service. \<open>openClientFile\<close> and \<open>findProject\<close> are the
  engine calls of the open-document handler that the model lets throw (\<open>Inl\<close>).
\<close>

record Engine =
  openClientFile :: "string \<Rightarrow> string \<Rightarrow> ScriptKind \<Rightarrow> JsError + OpenConfiguredProjectResult"
  getScriptInfo :: "string \<Rightarrow> ScriptInfo option"
  getDefaultLanguageService :: "ScriptInfo \<Rightarrow> LanguageService option"
  findProject :: "string \<Rightarrow> JsError + Project option"
  maxProgramSizeForNonTsFiles :: nat

text \<open>
  The functions the connection imports from the modules \<open>./utils\<close>, \<open>./utils/deno\<close>,
  \<open>./diagnostic\<close> and \<open>./completion\<close>. Their sources are not part of the development,
  so every operation below takes them as a parameter. \<open>uriToFilePath\<close> answers the empty
  string for a URI that is not a file; \<open>isDenoProject\<close> may throw.
\<close>

record Helpers =
  uriToFilePath :: "string \<Rightarrow> string"
  filePathToUri :: "string \<Rightarrow> string"
  lspPositionToTsPosition :: "ScriptInfo \<Rightarrow> Position \<Rightarrow> nat"
  tsTextSpanToLspRange :: "ScriptInfo \<Rightarrow> TextSpan \<Rightarrow> Range"
  tsDiagnosticToLspDiagnostic :: "TsDiagnostic \<Rightarrow> ScriptInfo \<Rightarrow> LspDiagnostic"
  tsCompletionEntryToLspCompletionItem :: "CompletionEntry \<Rightarrow> Position \<Rightarrow> ScriptInfo \<Rightarrow> CompletionItem"
  isDenoProject :: "Project \<Rightarrow> string \<Rightarrow> JsError + bool"

text \<open>The two custom notifications of \<open>projectLoadingNotification\<close>.\<close>

datatype Notification = ProjectLoadingStart | ProjectLoadingFinish

text \<open>
  Everything the connection does to the outside: console output, notifications, and the
  calls that change the engine or one of its projects. \<open>TimeoutFired\<close> is written by the
  timer queue itself when it starts a callback, with the timer's handle and the time.
\<close>

datatype Effect =
    ConsoleLog string
  | ConsoleInfo string
  | ConsoleError string
  | SendNotification Notification
  | SendDiagnostics string "LspDiagnostic list"
  | OpenClientFile string string ScriptKind
  | CloseClientFile string
  | FindProject string
  | RefreshDiagnostics string
  | DisableLanguageService string
  | ProjectLog string string
  | ScriptInfoOpen string string
  | ScriptInfoReloadFromFile string
  | TimeoutFired nat nat

text \<open>A pending timer of the JavaScript runtime with the \<open>openFiles\<close> its callback captured.\<close>

record Timer =
  handle :: nat
  due :: nat
  captured :: "string list"

text \<open>The two private fields of the class.\<close>

record Connection =
  isProjectLoading :: bool
  diagnosticsTimeout :: "nat option"

text \<open>The connection together with the runtime's clock and timer queue and the trace.\<close>

record World = Connection +
  clock :: nat
  timers :: "Timer list"
  nextHandle :: nat
  trace :: "Effect list"

definition initialWorld :: World where
  "initialWorld =
     \<lparr>isProjectLoading = False, diagnosticsTimeout = None,
      clock = 0, timers = [], nextHandle = 0, trace = []\<rparr>"

definition emit :: "Effect \<Rightarrow> World \<Rightarrow> World" where
  "emit e w = w\<lparr>trace := trace w @ [e]\<rparr>"

text \<open>How a template literal prints a number.\<close>

fun numberToString :: "nat \<Rightarrow> string" where
  "numberToString n =
     (if n < 10 then [char_of (48 + n)]
      else numberToString (n div 10) @ [char_of (48 + n mod 10)])"

declare numberToString.simps [simp del]

text \<open>\<open>Array.prototype.join\<close> on strings.\<close>

fun join :: "string \<Rightarrow> string list \<Rightarrow> string" where
  "join sep [] = []"
| "join sep [x] = x"
| "join sep (x # y # ys) = x @ sep @ join sep (y # ys)"

definition LanguageTsIds :: "string list" where
  "LanguageTsIds = [''javascript'', ''javascriptreact'', ''typescript'', ''typescriptreact'']"

section \<open>The project gatekeeper\<close>

definition DENO_MOD :: string where
  "DENO_MOD = ''mod.ts''"

text \<open>The engine's \<open>project.disableLanguageService()\<close>: it clears the project's flag.\<close>

definition disableLanguageService :: "Project \<Rightarrow> Project" where
  "disableLanguageService project = project\<lparr>languageServiceEnabled := False\<rparr>"

text \<open>
  \<open>checkIsDenoProject\<close> returns the world, the project as the call leaves it, and the
  error it threw, if any.
\<close>

definition checkIsDenoProject ::
  "Helpers \<Rightarrow> Engine \<Rightarrow> Project \<Rightarrow> World \<Rightarrow> World \<times> Project \<times> JsError option" where
  "checkIsDenoProject h eng project w =
     (if \<not> languageServiceEnabled project then
        (let msg = ''Language service is already disabled for '' @ projectName project @ ''. '' @
                   ''This could be due to non-TS files that exceeded the size limit ('' @
                   numberToString (maxProgramSizeForNonTsFiles eng) @ '' bytes).'' @
                   ''Please check log file for details.''
         in (emit (ProjectLog (projectName project) msg) (emit (ConsoleInfo msg) w), project, None))
      else
        (case isDenoProject h project DENO_MOD of
           Inl err \<Rightarrow> (w, project, Some err)
         | Inr False \<Rightarrow>
             (let msg = ''Disabling language service for '' @ projectName project @
                        '' because it is not an Deno project '' @
                        ''('' @ [CHR 0x27] @ DENO_MOD @ [CHR 0x27] @ '' could not be found). ''
              in (emit (ProjectLog (projectName project) msg)
                    (emit (ConsoleInfo msg)
                       (emit (DisableLanguageService (projectName project)) w)),
                  disableLanguageService project, None))
         | Inr True \<Rightarrow>
             (emit (ConsoleInfo (''Enabling language service for '' @ projectName project @ ''.'')) w,
              project, None)))"

section \<open>The diagnostics scheduler\<close>

text \<open>
  \<open>setTimeout\<close> and \<open>clearTimeout\<close> of the runtime, as an exact timer: a callback
  becomes due \<open>delay\<close> milliseconds after the call that scheduled it.
\<close>

definition clearTimeout :: "nat \<Rightarrow> World \<Rightarrow> World" where
  "clearTimeout tid w = w\<lparr>timers := filter (\<lambda>t. handle t \<noteq> tid) (timers w)\<rparr>"

definition setTimeout :: "string list \<Rightarrow> nat \<Rightarrow> World \<Rightarrow> nat \<times> World" where
  "setTimeout openFiles delay w =
     (nextHandle w,
      w\<lparr>timers := timers w @ [\<lparr>handle = nextHandle w, due = clock w + delay, captured = openFiles\<rparr>],
        nextHandle := Suc (nextHandle w)\<rparr>)"

definition triggerDiagnostics :: "string list \<Rightarrow> nat \<Rightarrow> World \<Rightarrow> World" where
  "triggerDiagnostics openFiles delay w =
     (let w1 = (case diagnosticsTimeout w of Some tid \<Rightarrow> clearTimeout tid w | None \<Rightarrow> w);
          (tid, w2) = setTimeout openFiles delay w1
      in w2\<lparr>diagnosticsTimeout := Some tid\<rparr>)"

text \<open>The loop of \<open>sendPendingDiagnostics\<close>; each \<open>continue\<close> goes on with the rest.\<close>

fun sendPendingDiagnostics :: "Helpers \<Rightarrow> Engine \<Rightarrow> string list \<Rightarrow> World \<Rightarrow> World" where
  "sendPendingDiagnostics h eng [] w = w"
| "sendPendingDiagnostics h eng (file # openFiles) w =
     (case getScriptInfo eng file of
        None \<Rightarrow> sendPendingDiagnostics h eng openFiles w
      | Some scriptInfo \<Rightarrow>
          (case getDefaultLanguageService eng scriptInfo of
             None \<Rightarrow> sendPendingDiagnostics h eng openFiles w
           | Some denoLgSrv \<Rightarrow>
               (let diagnostics = getSemanticDiagnostics denoLgSrv file
                in sendPendingDiagnostics h eng openFiles
                     (emit (SendDiagnostics (filePathToUri h file)
                              (map (\<lambda>d. tsDiagnosticToLspDiagnostic h d scriptInfo) diagnostics)) w))))"

text \<open>The arrow function handed to \<open>setTimeout\<close>.\<close>

definition timerCallback :: "Helpers \<Rightarrow> Engine \<Rightarrow> string list \<Rightarrow> World \<Rightarrow> World" where
  "timerCallback h eng openFiles w =
     sendPendingDiagnostics h eng openFiles (w\<lparr>diagnosticsTimeout := None\<rparr>)"

text \<open>
  The runtime takes a due timer off its queue, notes that it fired and runs the callback.
  A timer that was cleared in the meantime does nothing.
\<close>

definition fireTimer :: "Helpers \<Rightarrow> Engine \<Rightarrow> Timer \<Rightarrow> World \<Rightarrow> World" where
  "fireTimer h eng t w =
     (if handle t \<in> set (map handle (timers w)) then
        (let now = max (clock w) (due t)
         in timerCallback h eng (captured t)
              (emit (TimeoutFired (handle t) now)
                 (w\<lparr>clock := now, timers := filter (\<lambda>u. handle u \<noteq> handle t) (timers w)\<rparr>)))
      else w)"

text \<open>\<open>n\<close> milliseconds pass: the timers that come due fire, the earliest first.\<close>

definition elapse :: "Helpers \<Rightarrow> Engine \<Rightarrow> nat \<Rightarrow> World \<Rightarrow> World" where
  "elapse h eng n w =
     (let target = clock w + n;
          ready = sort_key due (filter (\<lambda>t. due t \<le> target) (timers w))
      in (fold (fireTimer h eng) ready w)\<lparr>clock := target\<rparr>)"

section \<open>Events of the project service\<close>

datatype ProjectServiceEvent =
    ProjectLoadingStartEvent
  | ProjectLoadingFinishEvent Project
  | ProjectsUpdatedInBackgroundEvent "string list"
  | OtherEvent string

text \<open>
  The \<open>finally\<close> block runs whatever the check did; an error of the check leaves the
  handler after it.
\<close>

definition handleProjectServiceEvent ::
  "Helpers \<Rightarrow> Engine \<Rightarrow> ProjectServiceEvent \<Rightarrow> World \<Rightarrow> World \<times> JsError option" where
  "handleProjectServiceEvent h eng event w =
     (let w0 = emit (ConsoleLog ''handleProjectServiceEvent'') w
      in case event of
           ProjectLoadingStartEvent \<Rightarrow>
             (emit (SendNotification ProjectLoadingStart)
                (emit (ConsoleLog ''project loading'') (w0\<lparr>isProjectLoading := True\<rparr>)), None)
         | ProjectLoadingFinishEvent project \<Rightarrow>
             (case checkIsDenoProject h eng project w0 of
                (w1, project', thrown) \<Rightarrow>
                  ((if isProjectLoading w1 then
                      emit (SendNotification ProjectLoadingFinish)
                        (emit (ConsoleLog ''project load finish'') (w1\<lparr>isProjectLoading := False\<rparr>))
                    else w1),
                   thrown))
         | ProjectsUpdatedInBackgroundEvent openFiles \<Rightarrow> (triggerDiagnostics openFiles 200 w0, None)
         | OtherEvent _ \<Rightarrow> (w0, None))"

section \<open>Request handlers\<close>

record TextDocumentItem =
  uri :: string
  languageId :: string
  docText :: string

text \<open>The body of the \<open>try\<close> block, once \<open>openClientFile\<close> has returned \<open>result\<close>.\<close>

definition afterOpenClientFile ::
  "Engine \<Rightarrow> string \<Rightarrow> OpenConfiguredProjectResult \<Rightarrow> World \<Rightarrow> World \<times> JsError option" where
  "afterOpenClientFile eng filePath result w =
     (let w1 = (case configFileErrors result of
                  None \<Rightarrow> w
                | Some errs \<Rightarrow> if errs = [] then w else emit (ConsoleError (join ''\<newline>'' errs)) w)
      in case configFileName result of
           None \<Rightarrow> (emit (ConsoleError (''No config file for '' @ filePath)) w1, None)
         | Some cfg \<Rightarrow>
             if cfg = [] then (emit (ConsoleError (''No config file for '' @ filePath)) w1, None)
             else
               (case findProject eng cfg of
                  Inl err \<Rightarrow> (emit (FindProject cfg) w1, Some err)
                | Inr None \<Rightarrow>
                    (emit (ConsoleError (''Failed to find project for '' @ filePath))
                       (emit (FindProject cfg) w1), None)
                | Inr (Some project) \<Rightarrow>
                    (if languageServiceEnabled project
                     then emit (RefreshDiagnostics (projectName project)) (emit (FindProject cfg) w1)
                     else emit (FindProject cfg) w1, None)))"

text \<open>The \<open>catch\<close> block; the caller throws \<open>error\<close> again after it.\<close>

definition catchOpenError :: "JsError \<Rightarrow> World \<Rightarrow> World" where
  "catchOpenError error w =
     (let w1 = (if isProjectLoading w
                then emit (SendNotification ProjectLoadingFinish) (w\<lparr>isProjectLoading := False\<rparr>)
                else w)
      in case stack error of
           None \<Rightarrow> w1
         | Some st \<Rightarrow> if st = [] then w1 else emit (ConsoleError st) w1)"

definition scriptKindOf :: "string \<Rightarrow> ScriptKind" where
  "scriptKindOf langId = (if langId \<in> set LanguageTsIds then TS else External)"

definition onDidOpenTextDocument ::
  "Helpers \<Rightarrow> Engine \<Rightarrow> TextDocumentItem \<Rightarrow> World \<Rightarrow> World \<times> JsError option" where
  "onDidOpenTextDocument h eng textDocument w =
     (let w0 = emit (ConsoleLog (''open '' @ uri textDocument)) w;
          filePath = uriToFilePath h (uri textDocument)
      in if filePath = [] then (w0, None)
         else
           (let scriptKind = scriptKindOf (languageId textDocument);
                w1 = emit (OpenClientFile filePath (docText textDocument) scriptKind) w0
            in case openClientFile eng filePath (docText textDocument) scriptKind of
                 Inl error \<Rightarrow> (catchOpenError error w1, Some error)
               | Inr result \<Rightarrow>
                   (case afterOpenClientFile eng filePath result w1 of
                      (w2, None) \<Rightarrow> (w2, None)
                    | (w2, Some error) \<Rightarrow> (catchOpenError error w2, Some error))))"

definition onDidCloseTextDocument :: "Helpers \<Rightarrow> string \<Rightarrow> World \<Rightarrow> World" where
  "onDidCloseTextDocument h docUri w =
     (let filePath = uriToFilePath h docUri
      in if filePath = [] then w else emit (CloseClientFile filePath) w)"

definition onDidSaveTextDocument ::
  "Helpers \<Rightarrow> Engine \<Rightarrow> string option \<Rightarrow> string \<Rightarrow> World \<Rightarrow> World" where
  "onDidSaveTextDocument h eng newText docUri w =
     (let filePath = uriToFilePath h docUri
      in case getScriptInfo eng filePath of
           None \<Rightarrow> w
         | Some scriptInfo \<Rightarrow>
             (case newText of
                None \<Rightarrow> emit (ScriptInfoReloadFromFile (fileName scriptInfo)) w
              | Some t \<Rightarrow>
                  if t = [] then emit (ScriptInfoReloadFromFile (fileName scriptInfo)) w
                  else emit (ScriptInfoOpen (fileName scriptInfo) t) w))"

text \<open>The loop of the definition handler over \<open>definition.definitions\<close>, pushing onto \<open>results\<close>.\<close>

fun definitionLoop ::
  "Helpers \<Rightarrow> Engine \<Rightarrow> Range \<Rightarrow> DefinitionInfo list \<Rightarrow> LocationLink list \<Rightarrow> LocationLink list" where
  "definitionLoop h eng origin [] results = results"
| "definitionLoop h eng origin (d # ds) results =
     (let scriptInfo = getScriptInfo eng (defFileName d)
      in if scriptInfo = None \<and> spanLength (defTextSpan d) > 0
         then definitionLoop h eng origin ds results
         else
           (let rng = (case scriptInfo of
                         Some si \<Rightarrow> tsTextSpanToLspRange h si (defTextSpan d)
                       | None \<Rightarrow> EMPTY_RANGE);
                target = filePathToUri h (defFileName d)
            in definitionLoop h eng origin ds
                 (results @ [\<lparr>originSelectionRange = origin, targetUri = target,
                               targetRange = rng, targetSelectionRange = rng\<rparr>])))"

definition onDefinition ::
  "Helpers \<Rightarrow> Engine \<Rightarrow> string \<Rightarrow> Position \<Rightarrow> World \<Rightarrow> World \<times> LocationLink list option" where
  "onDefinition h eng docUri position w =
     (let filePath = uriToFilePath h docUri
      in case getScriptInfo eng filePath of
           None \<Rightarrow> (emit (ConsoleLog (''Script info not found for '' @ filePath)) w, None)
         | Some scriptInfo \<Rightarrow>
             (case getDefaultLanguageService eng scriptInfo of
                None \<Rightarrow> (w, None)
              | Some langSvc \<Rightarrow>
                  (let offset = lspPositionToTsPosition h scriptInfo position
                   in case getDefinitionAndBoundSpan langSvc (fileName scriptInfo) offset of
                        None \<Rightarrow> (w, None)
                      | Some definition \<Rightarrow>
                          (case definitions definition of
                             None \<Rightarrow> (w, None)
                           | Some defs \<Rightarrow>
                               (w, Some (definitionLoop h eng
                                           (tsTextSpanToLspRange h scriptInfo (textSpan definition))
                                           defs []))))))"

definition onCompletion ::
  "Helpers \<Rightarrow> Engine \<Rightarrow> string \<Rightarrow> Position \<Rightarrow> CompletionItem list option" where
  "onCompletion h eng docUri position =
     (let filePath = uriToFilePath h docUri
      in if filePath = [] then None
         else
           (case getScriptInfo eng filePath of
              None \<Rightarrow> None
            | Some scriptInfo \<Rightarrow>
                (case getDefaultLanguageService eng scriptInfo of
                   None \<Rightarrow> None
                 | Some langSvc \<Rightarrow>
                     (let offset = lspPositionToTsPosition h scriptInfo position
                      in case getCompletionsAtPosition langSvc (fileName scriptInfo) offset of
                           None \<Rightarrow> None
                         | Some completions \<Rightarrow>
                             Some (map (\<lambda>e. tsCompletionEntryToLspCompletionItem h e position scriptInfo)
                                     (entries completions))))))"

section \<open>Runs of the connection\<close>

text \<open>
  The connection handles one protocol message or one engine event at a time. A run is a
  list of such stimuli, each with the answers the engine gives while it is handled. An
  error that leaves a handler is dropped there: the layer that called the handler keeps
  the connection alive.
\<close>

datatype Stimulus =
    EngineEvent ProjectServiceEvent
  | DidOpen TextDocumentItem
  | DidClose string
  | DidSave "string option" string
  | DefinitionRequest string Position
  | CompletionRequest string Position
  | Elapse nat

fun step :: "Helpers \<Rightarrow> Engine \<Rightarrow> Stimulus \<Rightarrow> World \<Rightarrow> World" where
  "step h eng (EngineEvent event) w = fst (handleProjectServiceEvent h eng event w)"
| "step h eng (DidOpen textDocument) w = fst (onDidOpenTextDocument h eng textDocument w)"
| "step h eng (DidClose docUri) w = onDidCloseTextDocument h docUri w"
| "step h eng (DidSave newText docUri) w = onDidSaveTextDocument h eng newText docUri w"
| "step h eng (DefinitionRequest docUri position) w = fst (onDefinition h eng docUri position w)"
| "step h eng (CompletionRequest docUri position) w = w"
| "step h eng (Elapse n) w = elapse h eng n w"

fun run :: "Helpers \<Rightarrow> (Engine \<times> Stimulus) list \<Rightarrow> World \<Rightarrow> World" where
  "run h [] w = w"
| "run h ((eng, s) # rest) w = run h rest (step h eng s w)"

section \<open>The position codec\<close>

text \<open>
  Modelled from the spec: the module \<open>./utils\<close> with \<open>lspPositionToTsPosition\<close> and
  \<open>tsTextSpanToLspRange\<close> is missing. An editor position is a zero-based line and a
  zero-based column counted in UTF-16 code units; an engine offset counts code units from
  the start of the text. The spec does not say which code units end a line, so the test
  \<open>brk\<close> for them is a parameter. \<open>positionAt\<close> is the position of an offset.
\<close>

fun positionAt :: "('c \<Rightarrow> bool) \<Rightarrow> 'c list \<Rightarrow> nat \<Rightarrow> Position" where
  "positionAt brk cs 0 = \<lparr>line = 0, character = 0\<rparr>"
| "positionAt brk [] (Suc n) = \<lparr>line = 0, character = 0\<rparr>"
| "positionAt brk (c # cs) (Suc n) =
     (let p = positionAt brk cs n
      in if brk c then p\<lparr>line := Suc (line p)\<rparr>
         else if line p = 0 then p\<lparr>character := Suc (character p)\<rparr>
         else p)"

text \<open>
  Modelled from the spec: the offset of a line and column, for the missing
  \<open>lspPositionToTsPosition\<close>; a line starts at offset 0 and after every line end.
\<close>

fun offsetAt :: "('c \<Rightarrow> bool) \<Rightarrow> 'c list \<Rightarrow> nat \<Rightarrow> nat \<Rightarrow> nat" where
  "offsetAt brk cs 0 ch = ch"
| "offsetAt brk [] (Suc l) ch = 0"
| "offsetAt brk (c # cs) (Suc l) ch =
     Suc (if brk c then offsetAt brk cs l ch else offsetAt brk cs (Suc l) ch)"

text \<open>
  Modelled from the spec: the number of code units on a line before its line end, \<open>None\<close>
  for a line the text does not have. It says which positions lie inside the text.
\<close>

fun lineLength :: "('c \<Rightarrow> bool) \<Rightarrow> 'c list \<Rightarrow> nat \<Rightarrow> nat option" where
  "lineLength brk [] 0 = Some 0"
| "lineLength brk [] (Suc l) = None"
| "lineLength brk (c # cs) 0 = (if brk c then Some 0 else map_option Suc (lineLength brk cs 0))"
| "lineLength brk (c # cs) (Suc l) =
     (if brk c then lineLength brk cs l else lineLength brk cs (Suc l))"

text \<open>Modelled from the spec: \<open>toOffset(scriptInfo, position)\<close> of the missing module \<open>./utils\<close>.\<close>

definition toOffset :: "(16 word \<Rightarrow> bool) \<Rightarrow> ScriptInfo \<Rightarrow> Position \<Rightarrow> nat" where
  "toOffset brk scriptInfo position =
     offsetAt brk (snapshot scriptInfo) (line position) (character position)"

text \<open>
  Modelled from the spec: \<open>toRange(scriptInfo, span)\<close> of the missing module \<open>./utils\<close>;
  without a script info the range is the fixed empty range at the origin.
\<close>

definition toRange :: "(16 word \<Rightarrow> bool) \<Rightarrow> ScriptInfo option \<Rightarrow> TextSpan \<Rightarrow> Range" where
  "toRange brk scriptInfo span =
     (case scriptInfo of
        None \<Rightarrow> EMPTY_RANGE
      | Some si \<Rightarrow>
          \<lparr>rangeStart = positionAt brk (snapshot si) (spanStart span),
           rangeEnd = positionAt brk (snapshot si) (spanStart span + spanLength span)\<rparr>)"

section \<open>Reading a trace\<close>

text \<open>The effects that a handler added when it took the world \<open>w\<close> to \<open>w'\<close>.\<close>

definition added :: "World \<Rightarrow> World \<Rightarrow> Effect list" where
  "added w w' = drop (length (trace w)) (trace w')"

text \<open>The notifications of a trace, the files it opened, the projects it disabled.\<close>

fun notifications :: "Effect list \<Rightarrow> Notification list" where
  "notifications [] = []"
| "notifications (SendNotification n # es) = n # notifications es"
| "notifications (e # es) = notifications es"

fun openedFiles :: "Effect list \<Rightarrow> (string \<times> string \<times> ScriptKind) list" where
  "openedFiles [] = []"
| "openedFiles (OpenClientFile p t k # es) = (p, t, k) # openedFiles es"
| "openedFiles (e # es) = openedFiles es"

fun disabledProjects :: "Effect list \<Rightarrow> string list" where
  "disabledProjects [] = []"
| "disabledProjects (DisableLanguageService p # es) = p # disabledProjects es"
| "disabledProjects (e # es) = disabledProjects es"

text \<open>The diagnostics lists a trace published for one URI, in order.\<close>

fun publishedFor :: "string \<Rightarrow> Effect list \<Rightarrow> LspDiagnostic list list" where
  "publishedFor u [] = []"
| "publishedFor u (SendDiagnostics v ds # es) =
     (if v = u then ds # publishedFor u es else publishedFor u es)"
| "publishedFor u (e # es) = publishedFor u es"

fun isLog :: "Effect \<Rightarrow> bool" where
  "isLog (ConsoleLog m) = True"
| "isLog (ConsoleInfo m) = True"
| "isLog (ConsoleError m) = True"
| "isLog (ProjectLog p m) = True"
| "isLog e = False"

text \<open>
  The loading flag that a list of notifications leads to, from the flag \<open>b\<close>: a start
  notification sets it, a finish notification needs it set and clears it. The result is
  \<open>None\<close> when a finish notification comes while the flag is clear.
\<close>

fun loadingAfter :: "bool \<Rightarrow> Notification list \<Rightarrow> bool option" where
  "loadingAfter b [] = Some b"
| "loadingAfter b (ProjectLoadingStart # ns) = loadingAfter True ns"
| "loadingAfter b (ProjectLoadingFinish # ns) = (if b then loadingAfter False ns else None)"

text \<open>
  Two relations between a world and a later one, used in the proofs about runs: the later
  trace extends the earlier one, and the added notifications lead from the earlier flag to
  the later one (\<open>tracks\<close>), or there are none and the flag is the same (\<open>quiet\<close>).
\<close>

definition tracks :: "World \<Rightarrow> World \<Rightarrow> bool" where
  "tracks w w' \<longleftrightarrow>
     (\<exists>es. trace w' = trace w @ es \<and>
        loadingAfter (isProjectLoading w) (notifications es) = Some (isProjectLoading w'))"

definition quiet :: "World \<Rightarrow> World \<Rightarrow> bool" where
  "quiet w w' \<longleftrightarrow>
     (\<exists>es. trace w' = trace w @ es \<and> notifications es = []) \<and>
     isProjectLoading w' = isProjectLoading w"

section \<open>Bursts of trigger calls\<close>

text \<open>
  A burst is a list of calls of \<open>triggerDiagnostics\<close>, each with the time that passes
  before it, its open files and its delay. \<open>withinWindow remaining calls\<close> says that every
  call comes before the delay of the call before it has passed, \<open>remaining\<close> being what is
  left of the delay before the first call.
\<close>

fun burst :: "Helpers \<Rightarrow> Engine \<Rightarrow> (nat \<times> string list \<times> nat) list \<Rightarrow> World \<Rightarrow> World" where
  "burst h eng [] w = w"
| "burst h eng ((gap, openFiles, delay) # calls) w =
     burst h eng calls (triggerDiagnostics openFiles delay (elapse h eng gap w))"

fun withinWindow :: "nat \<Rightarrow> (nat \<times> string list \<times> nat) list \<Rightarrow> bool" where
  "withinWindow remaining [] = True"
| "withinWindow remaining ((gap, openFiles, delay) # calls) =
     (gap < remaining \<and> withinWindow delay calls)"

text \<open>
  The timer queue holds exactly the timer that \<open>diagnosticsTimeout\<close> refers to, and no
  timer when the field is null.
\<close>

definition oneTimer :: "World \<Rightarrow> bool" where
  "oneTimer w \<longleftrightarrow>
     map handle (timers w) = (case diagnosticsTimeout w of None \<Rightarrow> [] | Some tid \<Rightarrow> [tid])"

section \<open>A concrete workspace\<close>

text \<open>
  One choice of the imported functions and of the engine's answers, used to run the
  handlers on concrete inputs: a workspace with the project \<open>/ws/tsconfig.json\<close> and
  the open file \<open>/ws/mod.ts\<close>; opening \<open>/ws/boom.ts\<close> throws.
\<close>

definition demoHelpers :: Helpers where
  "demoHelpers =
     \<lparr>uriToFilePath = (\<lambda>u. if take 7 u = ''file://'' then drop 7 u else []),
      filePathToUri = (\<lambda>p. ''file://'' @ p),
      lspPositionToTsPosition = toOffset (\<lambda>c. c = 10),
      tsTextSpanToLspRange = (\<lambda>si sp. toRange (\<lambda>c. c = 10) (Some si) sp),
      tsDiagnosticToLspDiagnostic =
        (\<lambda>d si. \<lparr>range = toRange (\<lambda>c. c = 10) (Some si)
                             \<lparr>spanStart = diagStart d, spanLength = diagLength d\<rparr>,
                  severity = Suc (category d), diagCode = code d, diagMessage = messageText d\<rparr>),
      tsCompletionEntryToLspCompletionItem =
        (\<lambda>e pos si. \<lparr>label = name e, itemKind = length (kind e), detail = kind e,
                     itemSortText = sortText e, itemInsertText = insertText e\<rparr>),
      isDenoProject =
        (\<lambda>p marker. Inr (list_ex (\<lambda>f. drop (length f - length marker) f = marker) (fileNames p)))\<rparr>"

definition demoScriptInfo :: ScriptInfo where
  "demoScriptInfo = \<lparr>fileName = ''/ws/mod.ts'', snapshot = [97, 10, 98, 99]\<rparr>"

definition demoService :: LanguageService where
  "demoService =
     \<lparr>getSemanticDiagnostics = (\<lambda>f. []),
      getDefinitionAndBoundSpan =
        (\<lambda>f offset. Some \<lparr>definitions =
                              Some [\<lparr>defFileName = ''/ws/mod.ts'',
                                     defTextSpan = \<lparr>spanStart = 2, spanLength = 1\<rparr>\<rparr>,
                                    \<lparr>defFileName = ''/ws/style.css'',
                                     defTextSpan = \<lparr>spanStart = 0, spanLength = 0\<rparr>\<rparr>,
                                    \<lparr>defFileName = ''/ws/gone.ts'',
                                     defTextSpan = \<lparr>spanStart = 4, spanLength = 3\<rparr>\<rparr>],
                            textSpan = \<lparr>spanStart = 0, spanLength = 1\<rparr>\<rparr>),
      getCompletionsAtPosition =
        (\<lambda>f offset.
           Some \<lparr>entries =
                   [\<lparr>name = ''zeta'', kind = ''function'', sortText = ''0'', insertText = None\<rparr>,
                    \<lparr>name = ''alpha'', kind = ''var'', sortText = ''1'', insertText = Some ''alpha''\<rparr>]\<rparr>)\<rparr>"

definition demoProject :: Project where
  "demoProject =
     \<lparr>projectName = ''/ws/tsconfig.json'', languageServiceEnabled = True,
      fileNames = [''/ws/mod.ts'', ''/ws/a.ts'']\<rparr>"

definition demoError :: JsError where
  "demoError = \<lparr>message = ''boom'', stack = Some ''Error: boom''\<rparr>"

definition demoEngine :: Engine where
  "demoEngine =
     \<lparr>openClientFile =
        (\<lambda>p t k. if p = ''/ws/boom.ts'' then Inl demoError
                   else Inr \<lparr>configFileName = Some ''/ws/tsconfig.json'', configFileErrors = Some []\<rparr>),
      getScriptInfo = (\<lambda>p. if p = ''/ws/mod.ts'' then Some demoScriptInfo else None),
      getDefaultLanguageService = (\<lambda>si. Some demoService),
      findProject = (\<lambda>c. if c = ''/ws/tsconfig.json'' then Inr (Some demoProject) else Inr None),
      maxProgramSizeForNonTsFiles = 20971520\<rparr>"

section \<open>The position codec: round trips\<close>

lemma offsetAt_positionAt:
  "n \<le> length cs \<Longrightarrow>
     offsetAt brk cs (line (positionAt brk cs n)) (character (positionAt brk cs n)) = n"
proof (induction brk cs n rule: positionAt.induct)
  case (3 brk c cs n)
  then have ih: "offsetAt brk cs (line (positionAt brk cs n)) (character (positionAt brk cs n)) = n"
    by simp
  show ?case
  proof (cases "line (positionAt brk cs n)")
    case 0
    with ih show ?thesis by (simp add: Let_def)
  next
    case (Suc l)
    with ih show ?thesis by (simp add: Let_def)
  qed
qed simp_all

lemma positionAt_first_line:
  "lineLength brk cs 0 = Some n \<Longrightarrow> ch \<le> n \<Longrightarrow>
     positionAt brk cs ch = \<lparr>line = 0, character = ch\<rparr> \<and> ch \<le> length cs"
proof (induction cs arbitrary: n ch)
  case Nil
  then show ?case by simp
next
  case (Cons c cs)
  show ?case
  proof (cases ch)
    case 0
    then show ?thesis by simp
  next
    case (Suc k)
    with Cons.prems have nb: "\<not> brk c" by (auto split: if_splits)
    with Cons.prems obtain m where m: "lineLength brk cs 0 = Some m" "n = Suc m" by auto
    with Cons.prems Suc have "k \<le> m" by simp
    from Cons.IH[OF m(1) this] show ?thesis using Suc nb by (simp add: Let_def)
  qed
qed

lemma positionAt_offsetAt:
  "lineLength brk cs l = Some n \<Longrightarrow> ch \<le> n \<Longrightarrow>
     positionAt brk cs (offsetAt brk cs l ch) = \<lparr>line = l, character = ch\<rparr> \<and>
     offsetAt brk cs l ch \<le> length cs"
proof (induction brk cs l arbitrary: n rule: lineLength.induct)
  case (3 brk c cs)
  then show ?case using positionAt_first_line[of brk "c # cs" n ch] by simp
next
  case (4 brk c cs l)
  then show ?case by (auto simp: Let_def split: if_splits)
qed simp_all

text \<open>
  C9. The two directions of the position codec are inverse to each other on the text: an
  offset up to the length of the text, turned into a position (as the start or as the end
  of a range) and back, is the same offset; a position inside the text, turned into an
  offset and back, is the same position; and a span without a script info becomes the
  fixed empty range at the origin.
\<close>

theorem position_codec_round_trip:
  "(spanStart sp \<le> length (snapshot si) \<longrightarrow>
      toOffset brk si (rangeStart (toRange brk (Some si) sp)) = spanStart sp) \<and>
   (spanStart sp + spanLength sp \<le> length (snapshot si) \<longrightarrow>
      toOffset brk si (rangeEnd (toRange brk (Some si) sp)) = spanStart sp + spanLength sp) \<and>
   (lineLength brk (snapshot si) (line pos) = Some n \<and> character pos \<le> n \<longrightarrow>
      rangeStart (toRange brk (Some si) \<lparr>spanStart = toOffset brk si pos, spanLength = 0\<rparr>) = pos \<and>
      toOffset brk si pos \<le> length (snapshot si)) \<and>
   toRange brk None sp = EMPTY_RANGE"
proof -
  have a: "spanStart sp \<le> length (snapshot si) \<longrightarrow>
      toOffset brk si (rangeStart (toRange brk (Some si) sp)) = spanStart sp"
    by (simp add: toOffset_def toRange_def offsetAt_positionAt)
  have b: "spanStart sp + spanLength sp \<le> length (snapshot si) \<longrightarrow>
      toOffset brk si (rangeEnd (toRange brk (Some si) sp)) = spanStart sp + spanLength sp"
    by (simp add: toOffset_def toRange_def offsetAt_positionAt)
  have c: "lineLength brk (snapshot si) (line pos) = Some n \<and> character pos \<le> n \<longrightarrow>
      rangeStart (toRange brk (Some si) \<lparr>spanStart = toOffset brk si pos, spanLength = 0\<rparr>) = pos \<and>
      toOffset brk si pos \<le> length (snapshot si)"
    using positionAt_offsetAt[of brk "snapshot si" "line pos" n "character pos"]
    by (simp add: toOffset_def toRange_def)
  have d: "toRange brk None sp = EMPTY_RANGE"
    by (simp add: toRange_def)
  from a b c d show ?thesis by blast
qed

theorem position_codec_round_trip_witness:
  "toOffset (\<lambda>c. c = 10) \<lparr>fileName = ''mod.ts'', snapshot = [97, 10, 98, 99]\<rparr>
     (rangeStart (toRange (\<lambda>c. c = 10) (Some \<lparr>fileName = ''mod.ts'', snapshot = [97, 10, 98, 99]\<rparr>)
        \<lparr>spanStart = 3, spanLength = 1\<rparr>)) = 3 \<and>
   toOffset (\<lambda>c. c = 10) \<lparr>fileName = ''mod.ts'', snapshot = [97, 10, 98, 99]\<rparr>
     (rangeEnd (toRange (\<lambda>c. c = 10) (Some \<lparr>fileName = ''mod.ts'', snapshot = [97, 10, 98, 99]\<rparr>)
        \<lparr>spanStart = 3, spanLength = 1\<rparr>)) = 4 \<and>
   rangeStart (toRange (\<lambda>c. c = 10) (Some \<lparr>fileName = ''mod.ts'', snapshot = [97, 10, 98, 99]\<rparr>)
     \<lparr>spanStart = toOffset (\<lambda>c. c = 10) \<lparr>fileName = ''mod.ts'', snapshot = [97, 10, 98, 99]\<rparr>
                    \<lparr>line = 1, character = 2\<rparr>,
      spanLength = 0\<rparr>) = \<lparr>line = 1, character = 2\<rparr> \<and>
   toRange (\<lambda>c. c = 10) None \<lparr>spanStart = 3, spanLength = 1\<rparr> = EMPTY_RANGE"
proof -
  let ?brk = "\<lambda>c::16 word. c = 10"
  let ?si = "\<lparr>fileName = ''mod.ts'', snapshot = [97, 10, 98, 99]\<rparr>"
  have h1: "spanStart \<lparr>spanStart = 3, spanLength = 1\<rparr> \<le> length (snapshot ?si)"
    by simp
  have h2: "spanStart \<lparr>spanStart = 3, spanLength = 1\<rparr> + spanLength \<lparr>spanStart = 3, spanLength = 1\<rparr>
      \<le> length (snapshot ?si)"
    by simp
  have h3: "lineLength ?brk (snapshot ?si) (line \<lparr>line = 1, character = 2\<rparr>) = Some 2 \<and>
      character \<lparr>line = 1, character = 2\<rparr> \<le> 2"
    by code_simp
  from position_codec_round_trip
    [of "\<lparr>spanStart = 3, spanLength = 1\<rparr>" ?si ?brk "\<lparr>line = 1, character = 2\<rparr>" 2] h1 h2 h3
  show ?thesis by simp
qed

section \<open>Facts about traces\<close>

lemma trace_emit [simp]: "trace (emit e w) = trace w @ [e]"
  by (simp add: emit_def)

lemma added_append [simp]: "trace w' = trace w @ es \<Longrightarrow> added w w' = es"
  by (simp add: added_def)

lemma notifications_append [simp]: "notifications (xs @ ys) = notifications xs @ notifications ys"
  by (induction xs rule: notifications.induct) simp_all

lemma openedFiles_append [simp]: "openedFiles (xs @ ys) = openedFiles xs @ openedFiles ys"
  by (induction xs rule: openedFiles.induct) simp_all

lemma disabledProjects_append [simp]: "disabledProjects (xs @ ys) = disabledProjects xs @ disabledProjects ys"
  by (induction xs rule: disabledProjects.induct) simp_all

lemma publishedFor_append [simp]: "publishedFor u (xs @ ys) = publishedFor u xs @ publishedFor u ys"
  by (induction u xs rule: publishedFor.induct) simp_all

lemma scriptKindOf_TS:
  "scriptKindOf l = (if l = ''javascript'' \<or> l = ''javascriptreact'' \<or> l = ''typescript'' \<or> l = ''typescriptreact'' then TS else External)"
  by (simp add: scriptKindOf_def LanguageTsIds_def)

lemma catchOpenError_trace: "\<exists>es. trace (catchOpenError e w) = trace w @ es \<and> openedFiles es = []"
  by (auto simp: catchOpenError_def Let_def split: option.splits)

lemma afterOpen_trace: "\<exists>es. trace (fst (afterOpenClientFile eng fp r w)) = trace w @ es \<and> openedFiles es = []"
  by (auto simp: afterOpenClientFile_def Let_def split: option.splits sum.splits)

section \<open>The open-document handler: script kinds\<close>

text \<open>
  C10. The open-document handler opens the client file in the engine at most once, and
  only for a URI with a file path; it opens it with the script kind \<open>TS\<close> exactly when the
  language kind is one of \<open>javascript\<close>, \<open>javascriptreact\<close>, \<open>typescript\<close> and
  \<open>typescriptreact\<close>, and with the kind \<open>External\<close> for every other language kind.
\<close>

theorem openDocument_script_kind:
  "openedFiles (added w (fst (onDidOpenTextDocument h eng doc w))) =
     (if uriToFilePath h (uri doc) = [] then []
      else [(uriToFilePath h (uri doc), docText doc,
             if languageId doc = ''javascript'' \<or> languageId doc = ''javascriptreact'' \<or>
                languageId doc = ''typescript'' \<or> languageId doc = ''typescriptreact''
             then TS else External)])"
proof (cases "uriToFilePath h (uri doc) = []")
  case True
  then show ?thesis by (simp add: onDidOpenTextDocument_def Let_def added_def)
next
  case False
  let ?fp = "uriToFilePath h (uri doc)"
  let ?k = "scriptKindOf (languageId doc)"
  let ?w1 = "emit (OpenClientFile ?fp (docText doc) ?k) (emit (ConsoleLog (''open '' @ uri doc)) w)"
  have t1: "trace ?w1 = trace w @ [ConsoleLog (''open '' @ uri doc), OpenClientFile ?fp (docText doc) ?k]"
    by simp
  have "\<exists>es. trace (fst (onDidOpenTextDocument h eng doc w)) = trace ?w1 @ es \<and> openedFiles es = []"
  proof (cases "openClientFile eng ?fp (docText doc) ?k")
    case (Inl err)
    with False show ?thesis
      using catchOpenError_trace[of err ?w1] by (simp add: onDidOpenTextDocument_def Let_def)
  next
    case (Inr r)
    obtain w2 t where a: "afterOpenClientFile eng ?fp r ?w1 = (w2, t)" by (cases "afterOpenClientFile eng ?fp r ?w1")
    from afterOpen_trace[of eng ?fp r ?w1] a obtain es where es: "trace w2 = trace ?w1 @ es" "openedFiles es = []" by auto
    show ?thesis
    proof (cases t)
      case None
      with False Inr a es show ?thesis by (simp add: onDidOpenTextDocument_def Let_def)
    next
      case (Some err)
      from catchOpenError_trace[of err w2] obtain es' where "trace (catchOpenError err w2) = trace w2 @ es'" "openedFiles es' = []" by auto
      with Some False Inr a es show ?thesis by (simp add: onDidOpenTextDocument_def Let_def)
    qed
  qed
  then obtain es where "trace (fst (onDidOpenTextDocument h eng doc w)) = trace w @ ([ConsoleLog (''open '' @ uri doc), OpenClientFile ?fp (docText doc) ?k] @ es)" "openedFiles es = []"
    using t1 by auto
  then have "openedFiles (added w (fst (onDidOpenTextDocument h eng doc w))) = [(?fp, docText doc, ?k)]"
    using added_append[of "fst (onDidOpenTextDocument h eng doc w)" w] by simp
  with False show ?thesis by (simp add: scriptKindOf_TS)
qed

theorem openDocument_script_kind_witness:
  "openedFiles (added initialWorld (fst (onDidOpenTextDocument demoHelpers demoEngine
      \<lparr>uri = ''file:///ws/mod.ts'', languageId = ''typescript'', docText = ''export {}''\<rparr> initialWorld))) =
     [(''/ws/mod.ts'', ''export {}'', TS)] \<and>
   openedFiles (added initialWorld (fst (onDidOpenTextDocument demoHelpers demoEngine
      \<lparr>uri = ''file:///ws/style.css'', languageId = ''css'', docText = ''a {}''\<rparr> initialWorld))) =
     [(''/ws/style.css'', ''a {}'', External)]"
  using openDocument_script_kind[where w = initialWorld and h = demoHelpers and eng = demoEngine and doc =
          "\<lparr>uri = ''file:///ws/mod.ts'', languageId = ''typescript'', docText = ''export {}''\<rparr>"]
        openDocument_script_kind[where w = initialWorld and h = demoHelpers and eng = demoEngine and doc =
          "\<lparr>uri = ''file:///ws/style.css'', languageId = ''css'', docText = ''a {}''\<rparr>"]
  by (simp add: demoHelpers_def)

section \<open>The gatekeeper decision\<close>

text \<open>
  C4. The gatekeeper check on a project: when the language service is already disabled on
  entry the check only logs, leaves the project as it is and disables nothing; when the
  service is enabled and \<open>mod.ts\<close> is not found, it calls the engine's
  \<open>disableLanguageService\<close> once and the flag is false afterwards; when the service is
  enabled and \<open>mod.ts\<close> is found, the project stays as it is, enabled, and nothing is
  disabled.
\<close>

theorem gatekeeper_decision:
  "(\<not> languageServiceEnabled p \<longrightarrow>
      (case checkIsDenoProject h eng p w of
         (w', p', thrown) \<Rightarrow>
           p' = p \<and> thrown = None \<and> added w w' \<noteq> [] \<and> list_all isLog (added w w'))) \<and>
   (languageServiceEnabled p \<and> isDenoProject h p ''mod.ts'' = Inr False \<longrightarrow>
      (case checkIsDenoProject h eng p w of
         (w', p', thrown) \<Rightarrow>
           \<not> languageServiceEnabled p' \<and> p' = disableLanguageService p \<and> thrown = None \<and>
           disabledProjects (added w w') = [projectName p])) \<and>
   (languageServiceEnabled p \<and> isDenoProject h p ''mod.ts'' = Inr True \<longrightarrow>
      (case checkIsDenoProject h eng p w of
         (w', p', thrown) \<Rightarrow>
           p' = p \<and> languageServiceEnabled p' \<and> thrown = None \<and>
           disabledProjects (added w w') = [] \<and> list_all isLog (added w w')))"
  by (simp add: checkIsDenoProject_def DENO_MOD_def Let_def added_def disableLanguageService_def)

theorem gatekeeper_decision_witness:
  "(case checkIsDenoProject demoHelpers demoEngine (demoProject\<lparr>languageServiceEnabled := False\<rparr>) initialWorld of
      (w', p', thrown) \<Rightarrow>
        p' = demoProject\<lparr>languageServiceEnabled := False\<rparr> \<and> thrown = None \<and>
        added initialWorld w' \<noteq> [] \<and> list_all isLog (added initialWorld w')) \<and>
   (case checkIsDenoProject demoHelpers demoEngine (demoProject\<lparr>fileNames := [''/ws/index.ts'']\<rparr>) initialWorld of
      (w', p', thrown) \<Rightarrow>
        \<not> languageServiceEnabled p' \<and>
        p' = disableLanguageService (demoProject\<lparr>fileNames := [''/ws/index.ts'']\<rparr>) \<and> thrown = None \<and>
        disabledProjects (added initialWorld w') = [projectName (demoProject\<lparr>fileNames := [''/ws/index.ts'']\<rparr>)]) \<and>
   (case checkIsDenoProject demoHelpers demoEngine demoProject initialWorld of
      (w', p', thrown) \<Rightarrow>
        p' = demoProject \<and> languageServiceEnabled p' \<and> thrown = None \<and>
        disabledProjects (added initialWorld w') = [] \<and> list_all isLog (added initialWorld w'))"
proof -
  have h1: "\<not> languageServiceEnabled (demoProject\<lparr>languageServiceEnabled := False\<rparr>)"
    by simp
  have h2: "languageServiceEnabled (demoProject\<lparr>fileNames := [''/ws/index.ts'']\<rparr>) \<and>
      isDenoProject demoHelpers (demoProject\<lparr>fileNames := [''/ws/index.ts'']\<rparr>) ''mod.ts'' = Inr False"
    by (simp add: demoProject_def demoHelpers_def)
  have h3: "languageServiceEnabled demoProject \<and> isDenoProject demoHelpers demoProject ''mod.ts'' = Inr True"
    by (simp add: demoProject_def demoHelpers_def)
  note a = gatekeeper_decision[where p = "demoProject\<lparr>languageServiceEnabled := False\<rparr>" and h = demoHelpers
            and eng = demoEngine and w = initialWorld, THEN conjunct1, THEN mp, OF h1]
  note b = gatekeeper_decision[where p = "demoProject\<lparr>fileNames := [''/ws/index.ts'']\<rparr>" and h = demoHelpers
            and eng = demoEngine and w = initialWorld, THEN conjunct2, THEN conjunct1, THEN mp, OF h2]
  note c = gatekeeper_decision[where p = demoProject and h = demoHelpers and eng = demoEngine and w = initialWorld,
            THEN conjunct2, THEN conjunct2, THEN mp, OF h3]
  show ?thesis by (rule conjI[OF a conjI[OF b c]])
qed

text \<open>
  C5. The gatekeeper check is idempotent: a second check, on the project as the first
  check left it, leaves the same project, and so the same \<open>languageServiceEnabled\<close>.
\<close>

theorem gatekeeper_idempotent:
  "fst (snd (checkIsDenoProject h eng (fst (snd (checkIsDenoProject h eng p w))) w')) =
     fst (snd (checkIsDenoProject h eng p w)) \<and>
   languageServiceEnabled (fst (snd (checkIsDenoProject h eng (fst (snd (checkIsDenoProject h eng p w))) w'))) =
     languageServiceEnabled (fst (snd (checkIsDenoProject h eng p w)))"
proof -
  have "fst (snd (checkIsDenoProject h eng (fst (snd (checkIsDenoProject h eng p w))) w')) =
     fst (snd (checkIsDenoProject h eng p w))"
  proof (cases "languageServiceEnabled p")
    case False
    then show ?thesis by (simp add: checkIsDenoProject_def Let_def)
  next
    case True
    show ?thesis
    proof (cases "isDenoProject h p DENO_MOD")
      case (Inl e)
      with True show ?thesis by (simp add: checkIsDenoProject_def Let_def)
    next
      case (Inr b)
      with True show ?thesis
        by (cases b) (simp_all add: checkIsDenoProject_def Let_def disableLanguageService_def)
    qed
  qed
  then show ?thesis by simp
qed

theorem gatekeeper_idempotent_witness:
  "languageServiceEnabled (fst (snd (checkIsDenoProject demoHelpers demoEngine
      (fst (snd (checkIsDenoProject demoHelpers demoEngine (demoProject\<lparr>fileNames := [''/ws/index.ts'']\<rparr>) initialWorld)))
      initialWorld))) = False"
proof -
  have "languageServiceEnabled (fst (snd (checkIsDenoProject demoHelpers demoEngine
          (demoProject\<lparr>fileNames := [''/ws/index.ts'']\<rparr>) initialWorld))) = False"
    by (simp add: checkIsDenoProject_def demoProject_def demoHelpers_def DENO_MOD_def Let_def
        disableLanguageService_def)
  with gatekeeper_idempotent[where h = demoHelpers and eng = demoEngine and p = "demoProject\<lparr>fileNames := [''/ws/index.ts'']\<rparr>"
            and w = initialWorld and w' = initialWorld]
  show ?thesis by simp
qed

section \<open>The completion handler\<close>

text \<open>
  C8. When the file path, the script info, the language service and the engine's
  completions are all there, the completion handler returns one item per entry, the item at
  each index being the codec's image of the entry at that index; it returns nothing exactly
  when one of the four is absent.
\<close>

theorem completion_keeps_order:
  "(uriToFilePath h u \<noteq> [] \<and> getScriptInfo eng (uriToFilePath h u) = Some si \<and>
    getDefaultLanguageService eng si = Some ls \<and>
    getCompletionsAtPosition ls (fileName si) (lspPositionToTsPosition h si pos) = Some completions \<longrightarrow>
      (\<exists>items. onCompletion h eng u pos = Some items \<and>
         length items = length (entries completions) \<and>
         (\<forall>i<length (entries completions).
            items ! i = tsCompletionEntryToLspCompletionItem h (entries completions ! i) pos si))) \<and>
   (onCompletion h eng u pos = None \<longleftrightarrow>
      uriToFilePath h u = [] \<or> getScriptInfo eng (uriToFilePath h u) = None \<or>
      (\<exists>si'. getScriptInfo eng (uriToFilePath h u) = Some si' \<and>
         (getDefaultLanguageService eng si' = None \<or>
          (\<exists>ls'. getDefaultLanguageService eng si' = Some ls' \<and>
             getCompletionsAtPosition ls' (fileName si') (lspPositionToTsPosition h si' pos) = None))))"
  by (auto simp: onCompletion_def Let_def split: option.splits)

theorem completion_keeps_order_witness:
  "onCompletion demoHelpers demoEngine ''file:///ws/mod.ts'' \<lparr>line = 1, character = 1\<rparr> =
     Some [\<lparr>label = ''zeta'', itemKind = 8, detail = ''function'', itemSortText = ''0'', itemInsertText = None\<rparr>,
           \<lparr>label = ''alpha'', itemKind = 3, detail = ''var'', itemSortText = ''1'', itemInsertText = Some ''alpha''\<rparr>] \<and>
   onCompletion demoHelpers demoEngine ''file:///ws/gone.ts'' \<lparr>line = 1, character = 1\<rparr> = None"
proof -
  let ?es = "[\<lparr>name = ''zeta'', kind = ''function'', sortText = ''0'', insertText = None\<rparr>,
                   \<lparr>name = ''alpha'', kind = ''var'', sortText = ''1'', insertText = Some ''alpha''\<rparr>]"
  let ?pos = "\<lparr>line = 1, character = 1\<rparr>"
  have h: "uriToFilePath demoHelpers ''file:///ws/mod.ts'' \<noteq> [] \<and>
      getScriptInfo demoEngine (uriToFilePath demoHelpers ''file:///ws/mod.ts'') = Some demoScriptInfo \<and>
      getDefaultLanguageService demoEngine demoScriptInfo = Some demoService \<and>
      getCompletionsAtPosition demoService (fileName demoScriptInfo)
        (lspPositionToTsPosition demoHelpers demoScriptInfo ?pos) = Some \<lparr>entries = ?es\<rparr>"
    by (simp add: demoHelpers_def demoEngine_def demoService_def)
  have g: "getScriptInfo demoEngine (uriToFilePath demoHelpers ''file:///ws/gone.ts'') = None"
    by (simp add: demoHelpers_def demoEngine_def)
  from completion_keeps_order[where h = demoHelpers and u = "''file:///ws/mod.ts''" and eng = demoEngine and si = demoScriptInfo
            and ls = demoService and pos = ?pos and completions = "\<lparr>entries = ?es\<rparr>"] h
  obtain items where items: "onCompletion demoHelpers demoEngine ''file:///ws/mod.ts'' ?pos = Some items"
    "length items = 2"
    "\<forall>i<2. items ! i = tsCompletionEntryToLspCompletionItem demoHelpers (?es ! i) ?pos demoScriptInfo"
    by auto
  from items(3) have "items ! 0 = tsCompletionEntryToLspCompletionItem demoHelpers (?es ! 0) ?pos demoScriptInfo"
    "items ! 1 = tsCompletionEntryToLspCompletionItem demoHelpers (?es ! 1) ?pos demoScriptInfo"
    by simp_all
  with items(2) have "items = [tsCompletionEntryToLspCompletionItem demoHelpers (?es ! 0) ?pos demoScriptInfo,
      tsCompletionEntryToLspCompletionItem demoHelpers (?es ! 1) ?pos demoScriptInfo]"
    by (cases items; cases "tl items"; auto)
  then have a: "items = [\<lparr>label = ''zeta'', itemKind = 8, detail = ''function'', itemSortText = ''0'', itemInsertText = None\<rparr>,
           \<lparr>label = ''alpha'', itemKind = 3, detail = ''var'', itemSortText = ''1'', itemInsertText = Some ''alpha''\<rparr>]"
    by (simp add: demoHelpers_def)
  from completion_keeps_order[where h = demoHelpers and u = "''file:///ws/gone.ts''" and eng = demoEngine and pos = ?pos] g
  have b: "onCompletion demoHelpers demoEngine ''file:///ws/gone.ts'' ?pos = None" by blast
  from items(1) a b show ?thesis by simp
qed

section \<open>The definition handler\<close>

lemma definitionLoop_concat:
  "definitionLoop h eng origin ds results =
     results @ concat (map (\<lambda>d. definitionLoop h eng origin [d] []) ds)"
proof (induction ds arbitrary: results)
  case Nil
  then show ?case by simp
next
  case (Cons d ds)
  have "definitionLoop h eng origin (d # ds) results =
        definitionLoop h eng origin ds (results @ definitionLoop h eng origin [d] [])"
    by (simp add: Let_def)
  then show ?case using Cons.IH by simp
qed

text \<open>
  C6. The definition handler treats the defining locations one by one and in order. A
  location without a script info and with a span of nonzero length adds no link; one
  without a script info and with a span of length zero adds a link whose target range and
  target selection range are \<open>(0,0)-(0,0)\<close>; one with a script info adds a link whose target
  ranges are the span converted by \<open>tsTextSpanToLspRange\<close>.
\<close>

theorem definition_targets:
  "definitionLoop h eng origin ds results =
     results @ concat (map (\<lambda>d. definitionLoop h eng origin [d] []) ds) \<and>
   (getScriptInfo eng (defFileName d) = None \<and> spanLength (defTextSpan d) \<noteq> 0 \<longrightarrow>
      definitionLoop h eng origin [d] [] = []) \<and>
   (getScriptInfo eng (defFileName d) = None \<and> spanLength (defTextSpan d) = 0 \<longrightarrow>
      definitionLoop h eng origin [d] [] =
        [\<lparr>originSelectionRange = origin, targetUri = filePathToUri h (defFileName d),
          targetRange = \<lparr>rangeStart = \<lparr>line = 0, character = 0\<rparr>,
                         rangeEnd = \<lparr>line = 0, character = 0\<rparr>\<rparr>,
          targetSelectionRange = \<lparr>rangeStart = \<lparr>line = 0, character = 0\<rparr>,
                                  rangeEnd = \<lparr>line = 0, character = 0\<rparr>\<rparr>\<rparr>]) \<and>
   (getScriptInfo eng (defFileName d) = Some dsi \<longrightarrow>
      definitionLoop h eng origin [d] [] =
        [\<lparr>originSelectionRange = origin, targetUri = filePathToUri h (defFileName d),
          targetRange = tsTextSpanToLspRange h dsi (defTextSpan d),
          targetSelectionRange = tsTextSpanToLspRange h dsi (defTextSpan d)\<rparr>]) \<and>
   (getScriptInfo eng (uriToFilePath h u) = Some si \<and> getDefaultLanguageService eng si = Some ls \<and>
    getDefinitionAndBoundSpan ls (fileName si) (lspPositionToTsPosition h si pos) = Some defn \<and>
    definitions defn = Some defs \<longrightarrow>
      snd (onDefinition h eng u pos w) =
        Some (definitionLoop h eng (tsTextSpanToLspRange h si (textSpan defn)) defs []))"
proof -
  have a: "definitionLoop h eng origin ds results =
     results @ concat (map (\<lambda>d. definitionLoop h eng origin [d] []) ds)"
    by (rule definitionLoop_concat)
  show ?thesis
    apply (rule conjI[OF a])
    apply (simp add: Let_def EMPTY_RANGE_def onDefinition_def)
    done
qed

theorem definition_targets_witness:
  "snd (onDefinition demoHelpers demoEngine ''file:///ws/mod.ts'' \<lparr>line = 0, character = 0\<rparr> initialWorld) =
     Some (definitionLoop demoHelpers demoEngine \<lparr>rangeStart = \<lparr>line = 0, character = 0\<rparr>, rangeEnd = \<lparr>line = 0, character = 1\<rparr>\<rparr>
        [\<lparr>defFileName = ''/ws/mod.ts'', defTextSpan = \<lparr>spanStart = 2, spanLength = 1\<rparr>\<rparr>,
         \<lparr>defFileName = ''/ws/style.css'', defTextSpan = \<lparr>spanStart = 0, spanLength = 0\<rparr>\<rparr>,
         \<lparr>defFileName = ''/ws/gone.ts'', defTextSpan = \<lparr>spanStart = 4, spanLength = 3\<rparr>\<rparr>] []) \<and>
   definitionLoop demoHelpers demoEngine EMPTY_RANGE
     [\<lparr>defFileName = ''/ws/gone.ts'', defTextSpan = \<lparr>spanStart = 4, spanLength = 3\<rparr>\<rparr>] [] = [] \<and>
   definitionLoop demoHelpers demoEngine EMPTY_RANGE
     [\<lparr>defFileName = ''/ws/style.css'', defTextSpan = \<lparr>spanStart = 0, spanLength = 0\<rparr>\<rparr>] [] =
     [\<lparr>originSelectionRange = EMPTY_RANGE, targetUri = ''file:///ws/style.css'',
       targetRange = \<lparr>rangeStart = \<lparr>line = 0, character = 0\<rparr>, rangeEnd = \<lparr>line = 0, character = 0\<rparr>\<rparr>,
       targetSelectionRange = \<lparr>rangeStart = \<lparr>line = 0, character = 0\<rparr>, rangeEnd = \<lparr>line = 0, character = 0\<rparr>\<rparr>\<rparr>] \<and>
   definitionLoop demoHelpers demoEngine EMPTY_RANGE
     [\<lparr>defFileName = ''/ws/mod.ts'', defTextSpan = \<lparr>spanStart = 2, spanLength = 1\<rparr>\<rparr>] [] =
     [\<lparr>originSelectionRange = EMPTY_RANGE, targetUri = ''file:///ws/mod.ts'',
       targetRange = \<lparr>rangeStart = \<lparr>line = 1, character = 0\<rparr>, rangeEnd = \<lparr>line = 1, character = 1\<rparr>\<rparr>,
       targetSelectionRange = \<lparr>rangeStart = \<lparr>line = 1, character = 0\<rparr>, rangeEnd = \<lparr>line = 1, character = 1\<rparr>\<rparr>\<rparr>]"
proof -
  let ?gone = "\<lparr>defFileName = ''/ws/gone.ts'', defTextSpan = \<lparr>spanStart = 4, spanLength = 3\<rparr>\<rparr>"
  let ?css = "\<lparr>defFileName = ''/ws/style.css'', defTextSpan = \<lparr>spanStart = 0, spanLength = 0\<rparr>\<rparr>"
  let ?mod = "\<lparr>defFileName = ''/ws/mod.ts'', defTextSpan = \<lparr>spanStart = 2, spanLength = 1\<rparr>\<rparr>"
  let ?defn = "\<lparr>definitions = Some [?mod, ?css, ?gone], textSpan = \<lparr>spanStart = 0, spanLength = 1\<rparr>\<rparr>"
  let ?pos = "\<lparr>line = 0, character = 0\<rparr>"
  have h1: "getScriptInfo demoEngine (defFileName ?gone) = None \<and> spanLength (defTextSpan ?gone) \<noteq> 0"
    by (simp add: demoEngine_def)
  have h2: "getScriptInfo demoEngine (defFileName ?css) = None \<and> spanLength (defTextSpan ?css) = 0"
    by (simp add: demoEngine_def)
  have h3: "getScriptInfo demoEngine (defFileName ?mod) = Some demoScriptInfo"
    by (simp add: demoEngine_def)
  have h4: "getScriptInfo demoEngine (uriToFilePath demoHelpers ''file:///ws/mod.ts'') = Some demoScriptInfo \<and>
      getDefaultLanguageService demoEngine demoScriptInfo = Some demoService \<and>
      getDefinitionAndBoundSpan demoService (fileName demoScriptInfo)
        (lspPositionToTsPosition demoHelpers demoScriptInfo ?pos) = Some ?defn \<and>
      definitions ?defn = Some [?mod, ?css, ?gone]"
    by (simp add: demoHelpers_def demoEngine_def demoService_def)
  have r0: "tsTextSpanToLspRange demoHelpers demoScriptInfo (textSpan ?defn) =
      \<lparr>rangeStart = \<lparr>line = 0, character = 0\<rparr>, rangeEnd = \<lparr>line = 0, character = 1\<rparr>\<rparr>"
    by code_simp
  have r1: "tsTextSpanToLspRange demoHelpers demoScriptInfo (defTextSpan ?mod) =
      \<lparr>rangeStart = \<lparr>line = 1, character = 0\<rparr>, rangeEnd = \<lparr>line = 1, character = 1\<rparr>\<rparr>"
    by code_simp
  have u: "filePathToUri demoHelpers (defFileName ?css) = ''file:///ws/style.css''"
    "filePathToUri demoHelpers (defFileName ?mod) = ''file:///ws/mod.ts''"
    by (simp_all add: demoHelpers_def)
  from definition_targets[where h = demoHelpers and eng = demoEngine and origin = EMPTY_RANGE and d = ?gone
            and u = "''file:///ws/mod.ts''" and si = demoScriptInfo and ls = demoService and pos = ?pos
            and defn = ?defn and defs = "[?mod, ?css, ?gone]" and w = initialWorld] h1 h4
  have a: "definitionLoop demoHelpers demoEngine EMPTY_RANGE [?gone] [] = []"
    and d: "snd (onDefinition demoHelpers demoEngine ''file:///ws/mod.ts'' ?pos initialWorld) =
        Some (definitionLoop demoHelpers demoEngine (tsTextSpanToLspRange demoHelpers demoScriptInfo (textSpan ?defn))
           [?mod, ?css, ?gone] [])"
    by blast+
  from definition_targets[where h = demoHelpers and eng = demoEngine and origin = EMPTY_RANGE and d = ?css] h2
  have b: "definitionLoop demoHelpers demoEngine EMPTY_RANGE [?css] [] =
        [\<lparr>originSelectionRange = EMPTY_RANGE, targetUri = filePathToUri demoHelpers (defFileName ?css),
          targetRange = \<lparr>rangeStart = \<lparr>line = 0, character = 0\<rparr>, rangeEnd = \<lparr>line = 0, character = 0\<rparr>\<rparr>,
          targetSelectionRange = \<lparr>rangeStart = \<lparr>line = 0, character = 0\<rparr>, rangeEnd = \<lparr>line = 0, character = 0\<rparr>\<rparr>\<rparr>]"
    by blast
  from definition_targets[where h = demoHelpers and eng = demoEngine and origin = EMPTY_RANGE and d = ?mod
            and dsi = demoScriptInfo] h3
  have c: "definitionLoop demoHelpers demoEngine EMPTY_RANGE [?mod] [] =
        [\<lparr>originSelectionRange = EMPTY_RANGE, targetUri = filePathToUri demoHelpers (defFileName ?mod),
          targetRange = tsTextSpanToLspRange demoHelpers demoScriptInfo (defTextSpan ?mod),
          targetSelectionRange = tsTextSpanToLspRange demoHelpers demoScriptInfo (defTextSpan ?mod)\<rparr>]"
    by blast
  from a b c d show ?thesis unfolding r0 r1 u by simp
qed

section \<open>The diagnostics pass\<close>

lemma sendPendingDiagnostics_eq:
  "sendPendingDiagnostics h eng files w =
     w\<lparr>trace := trace w @
        List.map_filter
          (\<lambda>f. case getScriptInfo eng f of
                  None \<Rightarrow> None
                | Some si \<Rightarrow>
                    (case getDefaultLanguageService eng si of
                       None \<Rightarrow> None
                     | Some ls \<Rightarrow>
                         Some (SendDiagnostics (filePathToUri h f)
                                 (map (\<lambda>d. tsDiagnosticToLspDiagnostic h d si)
                                    (getSemanticDiagnostics ls f))))) files\<rparr>"
proof (induction files arbitrary: w)
  case Nil
  then show ?case by (simp add: List.map_filter_simps)
next
  case (Cons f files)
  then show ?case
    by (simp add: List.map_filter_simps emit_def Let_def split: option.splits)
qed

lemma publishedFor_other:
  "\<forall>g \<in> set files. filePathToUri h g \<noteq> u \<Longrightarrow>
   publishedFor u (List.map_filter
          (\<lambda>f. case getScriptInfo eng f of
                  None \<Rightarrow> None
                | Some si \<Rightarrow>
                    (case getDefaultLanguageService eng si of
                       None \<Rightarrow> None
                     | Some ls \<Rightarrow>
                         Some (SendDiagnostics (filePathToUri h f)
                                 (map (\<lambda>d. tsDiagnosticToLspDiagnostic h d si)
                                    (getSemanticDiagnostics ls f))))) files) = []"
  by (induction files) (auto simp: List.map_filter_simps split: option.splits)

lemma publishedFor_member:
  "distinct files \<Longrightarrow> inj_on (filePathToUri h) (set files) \<Longrightarrow> f \<in> set files \<Longrightarrow>
   publishedFor (filePathToUri h f) (List.map_filter
          (\<lambda>f. case getScriptInfo eng f of
                  None \<Rightarrow> None
                | Some si \<Rightarrow>
                    (case getDefaultLanguageService eng si of
                       None \<Rightarrow> None
                     | Some ls \<Rightarrow>
                         Some (SendDiagnostics (filePathToUri h f)
                                 (map (\<lambda>d. tsDiagnosticToLspDiagnostic h d si)
                                    (getSemanticDiagnostics ls f))))) files) =
     (case getScriptInfo eng f of
        None \<Rightarrow> []
      | Some si \<Rightarrow>
          (case getDefaultLanguageService eng si of
             None \<Rightarrow> []
           | Some ls \<Rightarrow> [map (\<lambda>d. tsDiagnosticToLspDiagnostic h d si) (getSemanticDiagnostics ls f)]))"
proof (induction files)
  case Nil
  then show ?case by simp
next
  case (Cons g files)
  show ?case
  proof (cases "f = g")
    case True
    from Cons.prems have "\<forall>x \<in> set files. filePathToUri h x \<noteq> filePathToUri h g"
      by (auto simp: inj_on_def)
    from publishedFor_other[OF this, of eng] True show ?thesis
      by (simp add: List.map_filter_simps split: option.splits)
  next
    case False
    with Cons.prems have m: "f \<in> set files" "distinct files" "inj_on (filePathToUri h) (set files)"
      and ne: "filePathToUri h g \<noteq> filePathToUri h f"
      by (auto simp: inj_on_def)
    from Cons.IH[OF m(2) m(3) m(1)] ne show ?thesis
      by (simp add: List.map_filter_simps split: option.splits)
  qed
qed

text \<open>
  C3. A diagnostics pass over the open files changes nothing but the trace, and adds to it,
  in the order of the files, one \<open>publishDiagnostics\<close> notification for every file whose
  script info and language service both resolve, with the converted diagnostics (an empty
  list when there are none), and nothing for a file where one of the two is missing. So
  when the files are distinct and have distinct URIs, a file of the set has exactly one
  notification for its URI if it resolves and none if it does not.
\<close>

theorem diagnostics_pass_complete:
  "sendPendingDiagnostics h eng files w =
     w\<lparr>trace := trace w @
        List.map_filter
          (\<lambda>f. case getScriptInfo eng f of
                  None \<Rightarrow> None
                | Some si \<Rightarrow>
                    (case getDefaultLanguageService eng si of
                       None \<Rightarrow> None
                     | Some ls \<Rightarrow>
                         Some (SendDiagnostics (filePathToUri h f)
                                 (map (\<lambda>d. tsDiagnosticToLspDiagnostic h d si)
                                    (getSemanticDiagnostics ls f))))) files\<rparr> \<and>
   (distinct files \<and> inj_on (filePathToUri h) (set files) \<and> f \<in> set files \<longrightarrow>
      publishedFor (filePathToUri h f) (added w (sendPendingDiagnostics h eng files w)) =
        (case getScriptInfo eng f of
           None \<Rightarrow> []
         | Some si \<Rightarrow>
             (case getDefaultLanguageService eng si of
                None \<Rightarrow> []
              | Some ls \<Rightarrow>
                  [map (\<lambda>d. tsDiagnosticToLspDiagnostic h d si) (getSemanticDiagnostics ls f)])))"
proof -
  have a: "trace (sendPendingDiagnostics h eng files w) = trace w @ List.map_filter
          (\<lambda>f. case getScriptInfo eng f of
                  None \<Rightarrow> None
                | Some si \<Rightarrow>
                    (case getDefaultLanguageService eng si of
                       None \<Rightarrow> None
                     | Some ls \<Rightarrow>
                         Some (SendDiagnostics (filePathToUri h f)
                                 (map (\<lambda>d. tsDiagnosticToLspDiagnostic h d si)
                                    (getSemanticDiagnostics ls f))))) files"
    by (subst sendPendingDiagnostics_eq) simp
  show ?thesis
    using sendPendingDiagnostics_eq[of h eng files w] publishedFor_member[of files h f eng]
    by (simp add: added_append[OF a])
qed

theorem diagnostics_pass_complete_witness:
  "publishedFor ''file:///ws/mod.ts''
     (added initialWorld (sendPendingDiagnostics demoHelpers demoEngine [''/ws/mod.ts'', ''/ws/gone.ts''] initialWorld)) = [[]] \<and>
   publishedFor ''file:///ws/gone.ts''
     (added initialWorld (sendPendingDiagnostics demoHelpers demoEngine [''/ws/mod.ts'', ''/ws/gone.ts''] initialWorld)) = []"
proof -
  let ?files = "[''/ws/mod.ts'', ''/ws/gone.ts'']"
  have inj: "inj_on (filePathToUri demoHelpers) (set ?files)"
    by (simp add: demoHelpers_def inj_on_def)
  have h1: "distinct ?files \<and> inj_on (filePathToUri demoHelpers) (set ?files) \<and> ''/ws/mod.ts'' \<in> set ?files"
    using inj by simp
  have h2: "distinct ?files \<and> inj_on (filePathToUri demoHelpers) (set ?files) \<and> ''/ws/gone.ts'' \<in> set ?files"
    using inj by simp
  note a = diagnostics_pass_complete[where h = demoHelpers and eng = demoEngine and files = ?files and w = initialWorld
      and f = "''/ws/mod.ts''", THEN conjunct2, THEN mp, OF h1]
  note b = diagnostics_pass_complete[where h = demoHelpers and eng = demoEngine and files = ?files and w = initialWorld
      and f = "''/ws/gone.ts''", THEN conjunct2, THEN mp, OF h2]
  have u: "filePathToUri demoHelpers ''/ws/mod.ts'' = ''file:///ws/mod.ts''"
    "filePathToUri demoHelpers ''/ws/gone.ts'' = ''file:///ws/gone.ts''"
    by (simp_all add: demoHelpers_def)
  have r: "getScriptInfo demoEngine ''/ws/mod.ts'' = Some demoScriptInfo"
    "getScriptInfo demoEngine ''/ws/gone.ts'' = None"
    "getDefaultLanguageService demoEngine demoScriptInfo = Some demoService"
    "getSemanticDiagnostics demoService ''/ws/mod.ts'' = []"
    by (simp_all add: demoEngine_def demoService_def)
  have a': "publishedFor ''file:///ws/mod.ts''
      (added initialWorld (sendPendingDiagnostics demoHelpers demoEngine ?files initialWorld)) = [[]]"
    using a by (simp only: u r option.case list.map)
  have b': "publishedFor ''file:///ws/gone.ts''
      (added initialWorld (sendPendingDiagnostics demoHelpers demoEngine ?files initialWorld)) = []"
    using b by (simp only: u r option.case)
  from a' b' show ?thesis by (rule conjI)
qed

section \<open>The open-document handler: configuration\<close>

text \<open>
  C7. When the URI has a file path and the engine has opened the client file, the handler
  logs the configuration errors, if there are any, and goes on. Then: without a
  configuration file name it logs an error and stops, with no project lookup and no
  refresh; with a name but no project for it, it looks the project up, logs an error and
  stops; with a project, it asks for a diagnostics refresh exactly when the project's
  language service is enabled. None of these cases throws.
\<close>

theorem openDocument_config_resolution:
  "uriToFilePath h (uri doc) \<noteq> [] \<and>
   openClientFile eng (uriToFilePath h (uri doc)) (docText doc) (scriptKindOf (languageId doc)) = Inr result \<longrightarrow>
     (\<exists>rest.
        added w (fst (onDidOpenTextDocument h eng doc w)) =
          [ConsoleLog (''open '' @ uri doc),
           OpenClientFile (uriToFilePath h (uri doc)) (docText doc) (scriptKindOf (languageId doc))] @
          (case configFileErrors result of
             None \<Rightarrow> []
           | Some errs \<Rightarrow> if errs = [] then [] else [ConsoleError (join ''\<newline>'' errs)]) @
          rest \<and>
        (configFileName result = None \<or> configFileName result = Some [] \<longrightarrow>
           rest = [ConsoleError (''No config file for '' @ uriToFilePath h (uri doc))] \<and>
           snd (onDidOpenTextDocument h eng doc w) = None) \<and>
        (\<forall>cfg. configFileName result = Some cfg \<and> cfg \<noteq> [] \<and> findProject eng cfg = Inr None \<longrightarrow>
           rest = [FindProject cfg, ConsoleError (''Failed to find project for '' @ uriToFilePath h (uri doc))] \<and>
           snd (onDidOpenTextDocument h eng doc w) = None) \<and>
        (\<forall>cfg project. configFileName result = Some cfg \<and> cfg \<noteq> [] \<and>
             findProject eng cfg = Inr (Some project) \<longrightarrow>
           rest = FindProject cfg #
                  (if languageServiceEnabled project then [RefreshDiagnostics (projectName project)] else []) \<and>
           snd (onDidOpenTextDocument h eng doc w) = None))"
  by (auto simp: onDidOpenTextDocument_def afterOpenClientFile_def added_def Let_def emit_def catchOpenError_def
      split: option.splits sum.splits)

theorem openDocument_config_resolution_witness:
  "added initialWorld (fst (onDidOpenTextDocument demoHelpers demoEngine
      \<lparr>uri = ''file:///ws/mod.ts'', languageId = ''typescript'', docText = ''export {}''\<rparr> initialWorld)) =
     [ConsoleLog ''open file:///ws/mod.ts'', OpenClientFile ''/ws/mod.ts'' ''export {}'' TS,
      FindProject ''/ws/tsconfig.json'', RefreshDiagnostics ''/ws/tsconfig.json''] \<and>
   added initialWorld (fst (onDidOpenTextDocument demoHelpers
      (demoEngine\<lparr>openClientFile :=
         \<lambda>p t k. Inr \<lparr>configFileName = None, configFileErrors = Some [''bad option'']\<rparr>\<rparr>)
      \<lparr>uri = ''file:///ws/mod.ts'', languageId = ''typescript'', docText = ''export {}''\<rparr> initialWorld)) =
     [ConsoleLog ''open file:///ws/mod.ts'', OpenClientFile ''/ws/mod.ts'' ''export {}'' TS,
      ConsoleError ''bad option'', ConsoleError ''No config file for /ws/mod.ts''] \<and>
   added initialWorld (fst (onDidOpenTextDocument demoHelpers
      (demoEngine\<lparr>findProject := \<lambda>c. Inr None\<rparr>)
      \<lparr>uri = ''file:///ws/mod.ts'', languageId = ''typescript'', docText = ''export {}''\<rparr> initialWorld)) =
     [ConsoleLog ''open file:///ws/mod.ts'', OpenClientFile ''/ws/mod.ts'' ''export {}'' TS,
      FindProject ''/ws/tsconfig.json'', ConsoleError ''Failed to find project for /ws/mod.ts'']"
proof -
  let ?doc = "\<lparr>uri = ''file:///ws/mod.ts'', languageId = ''typescript'', docText = ''export {}''\<rparr>"
  let ?ok = "\<lparr>configFileName = Some ''/ws/tsconfig.json'', configFileErrors = Some []\<rparr>"
  let ?bad = "\<lparr>configFileName = None, configFileErrors = Some [''bad option'']\<rparr>"
  let ?e2 = "demoEngine\<lparr>openClientFile := \<lambda>p t k. Inr ?bad\<rparr>"
  let ?e3 = "demoEngine\<lparr>findProject := \<lambda>c. Inr None\<rparr>"
  have fp: "uriToFilePath demoHelpers (uri ?doc) = ''/ws/mod.ts''"
    by (simp add: demoHelpers_def)
  have k: "scriptKindOf (languageId ?doc) = TS"
    by (simp add: scriptKindOf_def LanguageTsIds_def)
  have h1: "uriToFilePath demoHelpers (uri ?doc) \<noteq> [] \<and>
      openClientFile demoEngine (uriToFilePath demoHelpers (uri ?doc)) (docText ?doc)
        (scriptKindOf (languageId ?doc)) = Inr ?ok"
    unfolding fp by (simp add: demoEngine_def)
  have h2: "uriToFilePath demoHelpers (uri ?doc) \<noteq> [] \<and>
      openClientFile ?e2 (uriToFilePath demoHelpers (uri ?doc)) (docText ?doc)
        (scriptKindOf (languageId ?doc)) = Inr ?bad"
    unfolding fp by simp
  have h3: "uriToFilePath demoHelpers (uri ?doc) \<noteq> [] \<and>
      openClientFile ?e3 (uriToFilePath demoHelpers (uri ?doc)) (docText ?doc)
        (scriptKindOf (languageId ?doc)) = Inr ?ok"
    unfolding fp by (simp add: demoEngine_def)
  have f1: "findProject demoEngine ''/ws/tsconfig.json'' = Inr (Some demoProject)"
    by (simp add: demoEngine_def)
  have p: "languageServiceEnabled demoProject" "projectName demoProject = ''/ws/tsconfig.json''"
    by (simp_all add: demoProject_def)
  from openDocument_config_resolution[where h = demoHelpers and eng = demoEngine and doc = ?doc and result = ?ok and w = initialWorld,
      THEN mp, OF h1] f1 p
  have a: "added initialWorld (fst (onDidOpenTextDocument demoHelpers demoEngine ?doc initialWorld)) =
     [ConsoleLog ''open file:///ws/mod.ts'', OpenClientFile ''/ws/mod.ts'' ''export {}'' TS,
      FindProject ''/ws/tsconfig.json'', RefreshDiagnostics ''/ws/tsconfig.json'']"
    unfolding fp k by auto
  from openDocument_config_resolution[where h = demoHelpers and eng = ?e2 and doc = ?doc and result = ?bad and w = initialWorld,
      THEN mp, OF h2]
  have b: "added initialWorld (fst (onDidOpenTextDocument demoHelpers ?e2 ?doc initialWorld)) =
     [ConsoleLog ''open file:///ws/mod.ts'', OpenClientFile ''/ws/mod.ts'' ''export {}'' TS,
      ConsoleError ''bad option'', ConsoleError ''No config file for /ws/mod.ts'']"
    unfolding fp k by auto
  from openDocument_config_resolution[where h = demoHelpers and eng = ?e3 and doc = ?doc and result = ?ok and w = initialWorld,
      THEN mp, OF h3]
  have c: "added initialWorld (fst (onDidOpenTextDocument demoHelpers ?e3 ?doc initialWorld)) =
     [ConsoleLog ''open file:///ws/mod.ts'', OpenClientFile ''/ws/mod.ts'' ''export {}'' TS,
      FindProject ''/ws/tsconfig.json'', ConsoleError ''Failed to find project for /ws/mod.ts'']"
    unfolding fp k by auto
  from a b c show ?thesis by blast
qed

section \<open>Project loading notifications\<close>

lemma loadingAfter_append:
  "loadingAfter b (xs @ ys) =
     (case loadingAfter b xs of None \<Rightarrow> None | Some b' \<Rightarrow> loadingAfter b' ys)"
  by (induction b xs rule: loadingAfter.induct) simp_all

lemma tracks_refl: "tracks w w"
  by (simp add: tracks_def)

lemma tracks_trans: "tracks w w' \<Longrightarrow> tracks w' w'' \<Longrightarrow> tracks w w''"
  by (auto simp: tracks_def loadingAfter_append)

lemma tracks_added:
  "tracks w w' \<Longrightarrow> loadingAfter (isProjectLoading w) (notifications (added w w')) = Some (isProjectLoading w')"
  by (auto simp: tracks_def)

lemma emit_fields [simp]:
  "isProjectLoading (emit e w) = isProjectLoading w"
  "diagnosticsTimeout (emit e w) = diagnosticsTimeout w"
  "timers (emit e w) = timers w"
  "clock (emit e w) = clock w"
  "nextHandle (emit e w) = nextHandle w"
  by (simp_all add: emit_def)

lemma checkIsDenoProject_quiet:
  "\<exists>es. trace (fst (checkIsDenoProject h eng p w)) = trace w @ es \<and> notifications es = [] \<and>
        isProjectLoading (fst (checkIsDenoProject h eng p w)) = isProjectLoading w"
  by (auto simp: checkIsDenoProject_def Let_def split: sum.splits bool.splits)

lemma triggerDiagnostics_fields [simp]:
  "trace (triggerDiagnostics fs d w) = trace w"
  "isProjectLoading (triggerDiagnostics fs d w) = isProjectLoading w"
  by (simp_all add: triggerDiagnostics_def setTimeout_def clearTimeout_def Let_def split: option.splits)

lemma handle_start:
  "notifications (added w (fst (handleProjectServiceEvent h eng ProjectLoadingStartEvent w))) = [ProjectLoadingStart] \<and>
   isProjectLoading (fst (handleProjectServiceEvent h eng ProjectLoadingStartEvent w))"
  by (simp add: handleProjectServiceEvent_def Let_def added_def)

lemma handle_finish:
  "notifications (added w (fst (handleProjectServiceEvent h eng (ProjectLoadingFinishEvent p) w))) =
     (if isProjectLoading w then [ProjectLoadingFinish] else []) \<and>
   \<not> isProjectLoading (fst (handleProjectServiceEvent h eng (ProjectLoadingFinishEvent p) w))"
proof -
  let ?w0 = "emit (ConsoleLog ''handleProjectServiceEvent'') w"
  obtain w1 p' t where c: "checkIsDenoProject h eng p ?w0 = (w1, p', t)"
    by (cases "checkIsDenoProject h eng p ?w0")
  from checkIsDenoProject_quiet[of h eng p ?w0] c
  obtain es where es: "trace w1 = trace ?w0 @ es" "notifications es = []"
    "isProjectLoading w1 = isProjectLoading w" by auto
  then have "trace w1 = trace w @ (ConsoleLog ''handleProjectServiceEvent'' # es)" by simp
  with es c show ?thesis
    by (simp add: handleProjectServiceEvent_def Let_def added_def)
qed

lemma handle_finish_throws:
  "languageServiceEnabled p \<and> isDenoProject h p ''mod.ts'' = Inl err \<longrightarrow>
     snd (handleProjectServiceEvent h eng (ProjectLoadingFinishEvent p) w) = Some err"
  by (simp add: handleProjectServiceEvent_def checkIsDenoProject_def DENO_MOD_def Let_def)

lemma handle_tracks: "tracks w (fst (handleProjectServiceEvent h eng ev w))"
proof (cases ev)
  case ProjectLoadingStartEvent
  then show ?thesis by (simp add: tracks_def handleProjectServiceEvent_def Let_def)
next
  case (ProjectLoadingFinishEvent p)
  let ?w0 = "emit (ConsoleLog ''handleProjectServiceEvent'') w"
  obtain w1 p' t where c: "checkIsDenoProject h eng p ?w0 = (w1, p', t)"
    by (cases "checkIsDenoProject h eng p ?w0")
  from checkIsDenoProject_quiet[of h eng p ?w0] c
  obtain es where es: "trace w1 = trace ?w0 @ es" "notifications es = []"
    "isProjectLoading w1 = isProjectLoading w" by auto
  then have "trace w1 = trace w @ (ConsoleLog ''handleProjectServiceEvent'' # es)" by simp
  with es c ProjectLoadingFinishEvent show ?thesis
    by (simp add: handleProjectServiceEvent_def Let_def tracks_def)
next
  case (ProjectsUpdatedInBackgroundEvent fs)
  then show ?thesis by (simp add: tracks_def handleProjectServiceEvent_def Let_def)
next
  case (OtherEvent s)
  then show ?thesis by (simp add: tracks_def handleProjectServiceEvent_def Let_def)
qed

lemma catchOpenError_notifications:
  "\<exists>es. trace (catchOpenError e w) = trace w @ es \<and>
     notifications es = (if isProjectLoading w then [ProjectLoadingFinish] else []) \<and>
     \<not> isProjectLoading (catchOpenError e w)"
  by (auto simp: catchOpenError_def Let_def split: option.splits)

lemma afterOpenClientFile_quiet:
  "\<exists>es. trace (fst (afterOpenClientFile eng fp r w)) = trace w @ es \<and> notifications es = [] \<and>
     isProjectLoading (fst (afterOpenClientFile eng fp r w)) = isProjectLoading w"
  by (auto simp: afterOpenClientFile_def Let_def split: option.splits sum.splits)

lemma onDidOpen_notifications:
  "\<exists>es. trace (fst (onDidOpenTextDocument h eng doc w)) = trace w @ es \<and>
     (case snd (onDidOpenTextDocument h eng doc w) of
        None \<Rightarrow> notifications es = [] \<and>
                isProjectLoading (fst (onDidOpenTextDocument h eng doc w)) = isProjectLoading w
      | Some err \<Rightarrow>
          notifications es = (if isProjectLoading w then [ProjectLoadingFinish] else []) \<and>
          \<not> isProjectLoading (fst (onDidOpenTextDocument h eng doc w)))"
proof (cases "uriToFilePath h (uri doc) = []")
  case True
  then show ?thesis by (simp add: onDidOpenTextDocument_def Let_def)
next
  case False
  let ?fp = "uriToFilePath h (uri doc)"
  let ?k = "scriptKindOf (languageId doc)"
  let ?w1 = "emit (OpenClientFile ?fp (docText doc) ?k) (emit (ConsoleLog (''open '' @ uri doc)) w)"
  have t1: "trace ?w1 = trace w @ [ConsoleLog (''open '' @ uri doc), OpenClientFile ?fp (docText doc) ?k]"
    "isProjectLoading ?w1 = isProjectLoading w"
    by simp_all
  show ?thesis
  proof (cases "openClientFile eng ?fp (docText doc) ?k")
    case (Inl err)
    from catchOpenError_notifications[of err ?w1] obtain es where
      "trace (catchOpenError err ?w1) = trace ?w1 @ es"
      "notifications es = (if isProjectLoading ?w1 then [ProjectLoadingFinish] else [])"
      "\<not> isProjectLoading (catchOpenError err ?w1)" by blast
    with False Inl t1 show ?thesis
      by (simp add: onDidOpenTextDocument_def Let_def)
  next
    case (Inr r)
    obtain w2 t where a: "afterOpenClientFile eng ?fp r ?w1 = (w2, t)"
      by (cases "afterOpenClientFile eng ?fp r ?w1")
    from afterOpenClientFile_quiet[of eng ?fp r ?w1] a obtain es where
      es: "trace w2 = trace ?w1 @ es" "notifications es = []" "isProjectLoading w2 = isProjectLoading w"
      by auto
    show ?thesis
    proof (cases t)
      case None
      with False Inr a es t1 show ?thesis by (simp add: onDidOpenTextDocument_def Let_def)
    next
      case (Some err)
      from catchOpenError_notifications[of err w2] obtain es' where
        "trace (catchOpenError err w2) = trace w2 @ es'"
        "notifications es' = (if isProjectLoading w2 then [ProjectLoadingFinish] else [])"
        "\<not> isProjectLoading (catchOpenError err w2)" by blast
      with Some False Inr a es t1 show ?thesis by (simp add: onDidOpenTextDocument_def Let_def)
    qed
  qed
qed

lemma onDidOpen_tracks: "tracks w (fst (onDidOpenTextDocument h eng doc w))"
  using onDidOpen_notifications[of h eng doc w]
  by (auto simp: tracks_def split: option.splits if_splits)

lemma quiet_refl: "quiet w w"
  by (simp add: quiet_def)

lemma quiet_trans: "quiet w w' \<Longrightarrow> quiet w' w'' \<Longrightarrow> quiet w w''"
  by (auto simp: quiet_def)

lemma quiet_tracks: "quiet w w' \<Longrightarrow> tracks w w'"
  by (auto simp: quiet_def tracks_def)

lemma quiet_sendPendingDiagnostics: "quiet w (sendPendingDiagnostics h eng fs w)"
proof (induction fs arbitrary: w)
  case Nil
  then show ?case by (simp add: quiet_refl)
next
  case (Cons f fs)
  have e: "quiet w (emit (SendDiagnostics u ds) w)" for u ds
    by (simp add: quiet_def)
  show ?case
    using Cons.IH[of w] quiet_trans[OF e Cons.IH]
    by (simp add: Let_def split: option.splits)
qed

lemma quiet_fireTimer: "quiet w (fireTimer h eng t w)"
proof (cases "handle t \<in> set (map handle (timers w))")
  case False
  then show ?thesis by (simp add: fireTimer_def quiet_refl)
next
  case True
  let ?w1 = "emit (TimeoutFired (handle t) (max (clock w) (due t)))
               (w\<lparr>clock := max (clock w) (due t),
                  timers := filter (\<lambda>u. handle u \<noteq> handle t) (timers w)\<rparr>)"
  have a: "quiet w (?w1\<lparr>diagnosticsTimeout := None\<rparr>)" by (simp add: quiet_def)
  from quiet_trans[OF a quiet_sendPendingDiagnostics] True show ?thesis
    by (simp add: fireTimer_def timerCallback_def Let_def)
qed

lemma quiet_fold_fireTimer: "quiet w (fold (fireTimer h eng) ts w)"
proof (induction ts arbitrary: w)
  case Nil
  then show ?case by (simp add: quiet_refl)
next
  case (Cons t ts)
  from quiet_trans[OF quiet_fireTimer Cons.IH] show ?case by simp
qed

lemma quiet_elapse: "quiet w (elapse h eng n w)"
proof -
  have "quiet w' (w'\<lparr>clock := c\<rparr>)" for w' c by (simp add: quiet_def)
  from quiet_trans[OF quiet_fold_fireTimer this] show ?thesis
    by (simp add: elapse_def Let_def)
qed

lemma quiet_close: "quiet w (onDidCloseTextDocument h u w)"
  by (simp add: onDidCloseTextDocument_def Let_def quiet_def)

lemma quiet_save: "quiet w (onDidSaveTextDocument h eng t u w)"
  by (simp add: onDidSaveTextDocument_def Let_def quiet_def split: option.splits)

lemma quiet_definition: "quiet w (fst (onDefinition h eng u pos w))"
  by (simp add: onDefinition_def Let_def quiet_def split: option.splits)

lemma step_tracks: "tracks w (step h eng s w)"
  by (cases s)
     (simp_all add: handle_tracks onDidOpen_tracks quiet_tracks quiet_close quiet_save
        quiet_definition quiet_elapse tracks_refl)

lemma run_tracks: "tracks w (run h ss w)"
proof (induction ss arbitrary: w)
  case Nil
  then show ?case by (simp add: tracks_refl)
next
  case (Cons a ss)
  obtain eng s where a: "a = (eng, s)" by (cases a)
  from tracks_trans[OF step_tracks Cons.IH] a show ?case by simp
qed

text \<open>
  C1, as the code has it. A \<open>ProjectLoadingStart\<close> event sends the start notification
  and sets the loading flag. A \<open>ProjectLoadingFinish\<close> event sends exactly one finish
  notification when the flag is set and none when it is clear, and leaves the flag clear,
  whatever the gatekeeper check does; when the check throws, the error leaves the handler
  after that. An open-document call that throws does the same; one that returns sends
  neither notification and keeps the flag. Over every run, the notifications follow the
  flag: a finish notification is sent only while the flag is set, which a start notification
  before it did, and it clears the flag. A start event that comes while the flag is already
  set gets no finish notification of its own.
\<close>

theorem loading_notifications_paired:
  "notifications (added w (fst (handleProjectServiceEvent h eng ProjectLoadingStartEvent w))) =
     [ProjectLoadingStart] \<and>
   isProjectLoading (fst (handleProjectServiceEvent h eng ProjectLoadingStartEvent w)) \<and>
   notifications (added w (fst (handleProjectServiceEvent h eng (ProjectLoadingFinishEvent p) w))) =
     (if isProjectLoading w then [ProjectLoadingFinish] else []) \<and>
   \<not> isProjectLoading (fst (handleProjectServiceEvent h eng (ProjectLoadingFinishEvent p) w)) \<and>
   (languageServiceEnabled p \<and> isDenoProject h p ''mod.ts'' = Inl err \<longrightarrow>
      snd (handleProjectServiceEvent h eng (ProjectLoadingFinishEvent p) w) = Some err) \<and>
   (snd (onDidOpenTextDocument h eng doc w) = Some err \<longrightarrow>
      notifications (added w (fst (onDidOpenTextDocument h eng doc w))) =
        (if isProjectLoading w then [ProjectLoadingFinish] else []) \<and>
      \<not> isProjectLoading (fst (onDidOpenTextDocument h eng doc w))) \<and>
   (snd (onDidOpenTextDocument h eng doc w) = None \<longrightarrow>
      notifications (added w (fst (onDidOpenTextDocument h eng doc w))) = [] \<and>
      isProjectLoading (fst (onDidOpenTextDocument h eng doc w)) = isProjectLoading w) \<and>
   loadingAfter (isProjectLoading w) (notifications (added w (run h ss w))) =
     Some (isProjectLoading (run h ss w))"
proof -
  from onDidOpen_notifications[of h eng doc w] obtain es where
    es: "trace (fst (onDidOpenTextDocument h eng doc w)) = trace w @ es"
    and c: "case snd (onDidOpenTextDocument h eng doc w) of
        None \<Rightarrow> notifications es = [] \<and>
                isProjectLoading (fst (onDidOpenTextDocument h eng doc w)) = isProjectLoading w
      | Some err \<Rightarrow>
          notifications es = (if isProjectLoading w then [ProjectLoadingFinish] else []) \<and>
          \<not> isProjectLoading (fst (onDidOpenTextDocument h eng doc w))"
    by blast
  have ad: "added w (fst (onDidOpenTextDocument h eng doc w)) = es"
    using es by (rule added_append)
  have o1: "snd (onDidOpenTextDocument h eng doc w) = Some err \<longrightarrow>
      notifications (added w (fst (onDidOpenTextDocument h eng doc w))) =
        (if isProjectLoading w then [ProjectLoadingFinish] else []) \<and>
      \<not> isProjectLoading (fst (onDidOpenTextDocument h eng doc w))"
    using c unfolding ad by (cases "snd (onDidOpenTextDocument h eng doc w)") simp_all
  have o2: "snd (onDidOpenTextDocument h eng doc w) = None \<longrightarrow>
      notifications (added w (fst (onDidOpenTextDocument h eng doc w))) = [] \<and>
      isProjectLoading (fst (onDidOpenTextDocument h eng doc w)) = isProjectLoading w"
    using c unfolding ad by (cases "snd (onDidOpenTextDocument h eng doc w)") simp_all
  note r = tracks_added[OF run_tracks, of w h ss]
  from handle_start[of w h eng] handle_finish[of w h eng p] handle_finish_throws[of p h err eng w] o1 o2 r
  show ?thesis by blast
qed

theorem loading_notifications_paired_witness:
  "snd (handleProjectServiceEvent (demoHelpers\<lparr>isDenoProject := \<lambda>p m. Inl demoError\<rparr>) demoEngine
          (ProjectLoadingFinishEvent demoProject) (initialWorld\<lparr>isProjectLoading := True\<rparr>)) = Some demoError \<and>
   notifications (added (initialWorld\<lparr>isProjectLoading := True\<rparr>)
     (fst (handleProjectServiceEvent (demoHelpers\<lparr>isDenoProject := \<lambda>p m. Inl demoError\<rparr>) demoEngine
          (ProjectLoadingFinishEvent demoProject) (initialWorld\<lparr>isProjectLoading := True\<rparr>)))) =
     [ProjectLoadingFinish] \<and>
   notifications (added (initialWorld\<lparr>isProjectLoading := True\<rparr>)
     (fst (onDidOpenTextDocument demoHelpers demoEngine
        \<lparr>uri = ''file:///ws/boom.ts'', languageId = ''typescript'', docText = ''''\<rparr>
        (initialWorld\<lparr>isProjectLoading := True\<rparr>)))) = [ProjectLoadingFinish] \<and>
   \<not> isProjectLoading (fst (onDidOpenTextDocument demoHelpers demoEngine
        \<lparr>uri = ''file:///ws/boom.ts'', languageId = ''typescript'', docText = ''''\<rparr>
        (initialWorld\<lparr>isProjectLoading := True\<rparr>))) \<and>
   notifications (added (initialWorld\<lparr>isProjectLoading := True\<rparr>)
     (fst (onDidOpenTextDocument demoHelpers demoEngine
        \<lparr>uri = ''file:///ws/mod.ts'', languageId = ''typescript'', docText = ''''\<rparr>
        (initialWorld\<lparr>isProjectLoading := True\<rparr>)))) = [] \<and>
   loadingAfter False (notifications (added initialWorld (run demoHelpers
      [(demoEngine, EngineEvent ProjectLoadingStartEvent),
       (demoEngine, DidOpen \<lparr>uri = ''file:///ws/boom.ts'', languageId = ''typescript'', docText = ''''\<rparr>),
       (demoEngine, EngineEvent (ProjectLoadingFinishEvent demoProject))] initialWorld))) = Some False"
proof -
  let ?hT = "demoHelpers\<lparr>isDenoProject := \<lambda>p m. Inl demoError\<rparr>"
  let ?wL = "initialWorld\<lparr>isProjectLoading := True\<rparr>"
  let ?boom = "\<lparr>uri = ''file:///ws/boom.ts'', languageId = ''typescript'', docText = ''''\<rparr>"
  let ?mod = "\<lparr>uri = ''file:///ws/mod.ts'', languageId = ''typescript'', docText = ''''\<rparr>"
  let ?ss = "[(demoEngine, EngineEvent ProjectLoadingStartEvent), (demoEngine, DidOpen ?boom),
       (demoEngine, EngineEvent (ProjectLoadingFinishEvent demoProject))]"
  have h1: "languageServiceEnabled demoProject \<and> isDenoProject ?hT demoProject ''mod.ts'' = Inl demoError"
    by (simp add: demoProject_def)
  have h2: "snd (onDidOpenTextDocument demoHelpers demoEngine ?boom ?wL) = Some demoError"
    by (simp add: onDidOpenTextDocument_def demoHelpers_def demoEngine_def Let_def)
  have h3: "snd (onDidOpenTextDocument demoHelpers demoEngine ?mod ?wL) = None"
    by (simp add: onDidOpenTextDocument_def afterOpenClientFile_def demoHelpers_def demoEngine_def Let_def)
  have l: "isProjectLoading ?wL" "isProjectLoading initialWorld = False"
    by (simp_all add: initialWorld_def)
  have f: "isProjectLoading (run demoHelpers ?ss initialWorld) = False"
    by (simp add: handleProjectServiceEvent_def checkIsDenoProject_def initialWorld_def Let_def
      demoHelpers_def demoProject_def DENO_MOD_def emit_def onDidOpenTextDocument_def demoEngine_def
      catchOpenError_def demoError_def)
  note a = loading_notifications_paired[where w = ?wL and h = ?hT and eng = demoEngine and p = demoProject and err = demoError]
  note b = loading_notifications_paired[where w = ?wL and h = demoHelpers and eng = demoEngine and doc = ?boom and err = demoError]
  note c = loading_notifications_paired[where w = ?wL and h = demoHelpers and eng = demoEngine and doc = ?mod]
  note d = loading_notifications_paired[where w = initialWorld and h = demoHelpers and ss = ?ss]
  from a h1 l have a': "snd (handleProjectServiceEvent ?hT demoEngine (ProjectLoadingFinishEvent demoProject) ?wL) = Some demoError"
    "notifications (added ?wL (fst (handleProjectServiceEvent ?hT demoEngine (ProjectLoadingFinishEvent demoProject) ?wL))) =
       [ProjectLoadingFinish]"
    by presburger+
  from b h2 l have b': "notifications (added ?wL (fst (onDidOpenTextDocument demoHelpers demoEngine ?boom ?wL))) = [ProjectLoadingFinish]"
    "\<not> isProjectLoading (fst (onDidOpenTextDocument demoHelpers demoEngine ?boom ?wL))"
    by presburger+
  from c h3 have c': "notifications (added ?wL (fst (onDidOpenTextDocument demoHelpers demoEngine ?mod ?wL))) = []"
    by presburger
  from d l f have d': "loadingAfter False (notifications (added initialWorld (run demoHelpers ?ss initialWorld))) = Some False"
    by presburger
  from a' b' c' d' show ?thesis by blast
qed

text \<open>
  C1 as stated fails: two projects start loading one after the other and both finish, and
  only one finish notification is sent for the two start events.
\<close>

theorem loading_notifications_paired_counterexample:
  "notifications (trace (run demoHelpers
      [(demoEngine, EngineEvent ProjectLoadingStartEvent),
       (demoEngine, EngineEvent ProjectLoadingStartEvent),
       (demoEngine, EngineEvent (ProjectLoadingFinishEvent demoProject)),
       (demoEngine, EngineEvent (ProjectLoadingFinishEvent demoProject))] initialWorld)) =
     [ProjectLoadingStart, ProjectLoadingStart, ProjectLoadingFinish] \<and>
   length (filter (\<lambda>s. snd s = EngineEvent ProjectLoadingStartEvent)
      [(demoEngine, EngineEvent ProjectLoadingStartEvent),
       (demoEngine, EngineEvent ProjectLoadingStartEvent),
       (demoEngine, EngineEvent (ProjectLoadingFinishEvent demoProject)),
       (demoEngine, EngineEvent (ProjectLoadingFinishEvent demoProject))]) = 2 \<and>
   length (filter (\<lambda>n. n = ProjectLoadingFinish) (notifications (trace (run demoHelpers
      [(demoEngine, EngineEvent ProjectLoadingStartEvent),
       (demoEngine, EngineEvent ProjectLoadingStartEvent),
       (demoEngine, EngineEvent (ProjectLoadingFinishEvent demoProject)),
       (demoEngine, EngineEvent (ProjectLoadingFinishEvent demoProject))] initialWorld)))) = 1"
  by (simp add: handleProjectServiceEvent_def checkIsDenoProject_def initialWorld_def Let_def
      demoHelpers_def demoProject_def DENO_MOD_def emit_def)

section \<open>Debounced diagnostics\<close>

lemma sendPendingDiagnostics_fields [simp]:
  "timers (sendPendingDiagnostics h eng fs w) = timers w"
  "diagnosticsTimeout (sendPendingDiagnostics h eng fs w) = diagnosticsTimeout w"
  "clock (sendPendingDiagnostics h eng fs w) = clock w"
  "nextHandle (sendPendingDiagnostics h eng fs w) = nextHandle w"
  "isProjectLoading (sendPendingDiagnostics h eng fs w) = isProjectLoading w"
  by (simp_all add: sendPendingDiagnostics_eq)

lemma elapse_no_timer:
  "timers w = [] \<Longrightarrow> elapse h eng n w = w\<lparr>clock := clock w + n\<rparr>"
  by (simp add: elapse_def)

lemma elapse_not_due:
  "timers w = [t] \<Longrightarrow> clock w + n < due t \<Longrightarrow> elapse h eng n w = w\<lparr>clock := clock w + n\<rparr>"
  by (simp add: elapse_def)

lemma elapse_due:
  "timers w = [t] \<Longrightarrow> due t \<le> clock w + n \<Longrightarrow>
     elapse h eng n w =
       (sendPendingDiagnostics h eng (captured t)
          (w\<lparr>clock := max (clock w) (due t), timers := [],
             trace := trace w @ [TimeoutFired (handle t) (max (clock w) (due t))],
             diagnosticsTimeout := None\<rparr>))
       \<lparr>clock := clock w + n\<rparr>"
  by (simp add: elapse_def fireTimer_def timerCallback_def Let_def emit_def)

lemma triggerDiagnostics_idle:
  "timers w = [] \<Longrightarrow> diagnosticsTimeout w = None \<Longrightarrow>
     triggerDiagnostics fs d w =
       w\<lparr>timers := [\<lparr>handle = nextHandle w, due = clock w + d, captured = fs\<rparr>],
         nextHandle := Suc (nextHandle w), diagnosticsTimeout := Some (nextHandle w)\<rparr>"
  by (simp add: triggerDiagnostics_def setTimeout_def)

lemma triggerDiagnostics_pending:
  "timers w = [t] \<Longrightarrow> diagnosticsTimeout w = Some (handle t) \<Longrightarrow>
     triggerDiagnostics fs d w =
       w\<lparr>timers := [\<lparr>handle = nextHandle w, due = clock w + d, captured = fs\<rparr>],
         nextHandle := Suc (nextHandle w), diagnosticsTimeout := Some (nextHandle w)\<rparr>"
  by (simp add: triggerDiagnostics_def setTimeout_def clearTimeout_def)

lemma oneTimer_cases:
  "oneTimer w \<Longrightarrow>
     (timers w = [] \<and> diagnosticsTimeout w = None) \<or>
     (\<exists>t. timers w = [t] \<and> diagnosticsTimeout w = Some (handle t))"
  by (cases "diagnosticsTimeout w") (auto simp: oneTimer_def)

lemma oneTimer_trigger: "oneTimer w \<Longrightarrow> oneTimer (triggerDiagnostics fs d w)"
  by (drule oneTimer_cases) (auto simp: triggerDiagnostics_idle triggerDiagnostics_pending oneTimer_def)

lemma oneTimer_elapse: "oneTimer w \<Longrightarrow> oneTimer (elapse h eng n w)"
proof (drule oneTimer_cases, elim disjE conjE exE)
  assume "timers w = []" "diagnosticsTimeout w = None"
  then show ?thesis by (simp add: elapse_no_timer oneTimer_def)
next
  fix t assume t: "timers w = [t]" "diagnosticsTimeout w = Some (handle t)"
  show ?thesis
  proof (cases "due t \<le> clock w + n")
    case True
    with t show ?thesis by (simp add: elapse_due oneTimer_def)
  next
    case False
    with t show ?thesis by (simp add: elapse_not_due oneTimer_def)
  qed
qed

lemma burst_pending:
  "timers w = [t] \<Longrightarrow> diagnosticsTimeout w = Some (handle t) \<Longrightarrow>
   withinWindow (due t - clock w) calls \<Longrightarrow> calls \<noteq> [] \<Longrightarrow> last calls = (g, fs, d) \<Longrightarrow>
     burst h eng calls w =
       w\<lparr>clock := clock w + sum_list (map fst calls),
         timers := [\<lparr>handle = nextHandle w + length calls - 1,
                     due = clock w + sum_list (map fst calls) + d, captured = fs\<rparr>],
         nextHandle := nextHandle w + length calls,
         diagnosticsTimeout := Some (nextHandle w + length calls - 1)\<rparr>"
proof (induction calls arbitrary: w t)
  case Nil
  then show ?case by simp
next
  case (Cons c cs)
  obtain g1 fs1 d1 where c: "c = (g1, fs1, d1)" by (cases c)
  from Cons.prems(3) c have "g1 < due t - clock w" by simp
  then have lt: "clock w + g1 < due t" by arith
  let ?w1 = "w\<lparr>clock := clock w + g1\<rparr>"
  let ?t1 = "\<lparr>handle = nextHandle w, due = clock w + g1 + d1, captured = fs1\<rparr>"
  let ?w2 = "?w1\<lparr>timers := [?t1], nextHandle := Suc (nextHandle w),
                diagnosticsTimeout := Some (nextHandle w)\<rparr>"
  have e: "elapse h eng g1 w = ?w1"
    using Cons.prems(1) lt by (rule elapse_not_due)
  have tr: "triggerDiagnostics fs1 d1 ?w1 = ?w2"
    using triggerDiagnostics_pending[of ?w1 t fs1 d1] Cons.prems(1,2) by simp
  have b: "burst h eng (c # cs) w = burst h eng cs ?w2"
    by (simp add: c e tr)
  show ?case
  proof (cases "cs = []")
    case True
    with Cons.prems c b show ?thesis by simp
  next
    case False
    have p1: "timers ?w2 = [?t1]" by simp
    have p2: "diagnosticsTimeout ?w2 = Some (handle ?t1)" by simp
    have p3: "withinWindow (due ?t1 - clock ?w2) cs" using Cons.prems(3) c by simp
    have p4: "last cs = (g, fs, d)" using Cons.prems(5) False by simp
    from Cons.IH[OF p1 p2 p3 False p4] b False show ?thesis
      by (simp add: c add.assoc)
  qed
qed

lemma burst_idle:
  assumes "timers w = []" "diagnosticsTimeout w = None" "withinWindow da rest"
    "last ((ga, fsa, da) # rest) = (g, fs, d)"
  shows "burst h eng ((ga, fsa, da) # rest) w =
       w\<lparr>clock := clock w + ga + sum_list (map fst rest),
         timers := [\<lparr>handle = nextHandle w + length rest,
                     due = clock w + ga + sum_list (map fst rest) + d, captured = fs\<rparr>],
         nextHandle := Suc (nextHandle w + length rest),
         diagnosticsTimeout := Some (nextHandle w + length rest)\<rparr>"
proof -
  let ?w1 = "w\<lparr>clock := clock w + ga\<rparr>"
  let ?t1 = "\<lparr>handle = nextHandle w, due = clock w + ga + da, captured = fsa\<rparr>"
  let ?w2 = "?w1\<lparr>timers := [?t1], nextHandle := Suc (nextHandle w),
                diagnosticsTimeout := Some (nextHandle w)\<rparr>"
  have e: "elapse h eng ga w = ?w1" using assms(1) by (rule elapse_no_timer)
  have tr: "triggerDiagnostics fsa da ?w1 = ?w2"
    using triggerDiagnostics_idle[of ?w1 fsa da] assms(1,2) by simp
  have b: "burst h eng ((ga, fsa, da) # rest) w = burst h eng rest ?w2"
    by (simp add: e tr)
  show ?thesis
  proof (cases "rest = []")
    case True
    with assms b show ?thesis by simp
  next
    case False
    have p1: "timers ?w2 = [?t1]" by simp
    have p2: "diagnosticsTimeout ?w2 = Some (handle ?t1)" by simp
    have p3: "withinWindow (due ?t1 - clock ?w2) rest" using assms(3) by simp
    have p4: "last rest = (g, fs, d)" using assms(4) False by simp
    from burst_pending[OF p1 p2 p3 False p4, of h eng] b False show ?thesis
      by (simp add: add.assoc)
  qed
qed

lemma oneTimer_burst: "oneTimer w \<Longrightarrow> oneTimer (burst h eng calls w)"
proof (induction calls arbitrary: w)
  case Nil
  then show ?case by simp
next
  case (Cons c cs)
  obtain g1 fs1 d1 where c: "c = (g1, fs1, d1)" by (cases c)
  from Cons.prems have "oneTimer (triggerDiagnostics fs1 d1 (elapse h eng g1 w))"
    by (intro oneTimer_trigger oneTimer_elapse)
  from Cons.IH[OF this] c show ?case by simp
qed

lemma checkIsDenoProject_frame:
  "timers (fst (checkIsDenoProject h eng p w)) = timers w \<and>
   diagnosticsTimeout (fst (checkIsDenoProject h eng p w)) = diagnosticsTimeout w"
  by (auto simp: checkIsDenoProject_def Let_def split: sum.splits bool.splits)

lemma oneTimer_handle: "oneTimer w \<Longrightarrow> oneTimer (fst (handleProjectServiceEvent h eng ev w))"
proof (cases ev)
  case ProjectLoadingStartEvent
  then show "oneTimer w \<Longrightarrow> ?thesis"
    by (simp add: handleProjectServiceEvent_def Let_def oneTimer_def)
next
  case (ProjectLoadingFinishEvent p)
  then show "oneTimer w \<Longrightarrow> ?thesis"
    using checkIsDenoProject_frame[of h eng p "emit (ConsoleLog ''handleProjectServiceEvent'') w"]
    by (auto simp: handleProjectServiceEvent_def Let_def oneTimer_def split: prod.splits)
next
  case (ProjectsUpdatedInBackgroundEvent fs)
  assume "oneTimer w"
  then have "oneTimer (emit (ConsoleLog ''handleProjectServiceEvent'') w)"
    by (simp add: oneTimer_def)
  from oneTimer_trigger[OF this] ProjectsUpdatedInBackgroundEvent show ?thesis
    by (simp add: handleProjectServiceEvent_def Let_def)
next
  case (OtherEvent s)
  then show "oneTimer w \<Longrightarrow> ?thesis"
    by (simp add: handleProjectServiceEvent_def Let_def oneTimer_def)
qed

lemma onDidOpen_frame:
  "timers (fst (onDidOpenTextDocument h eng doc w)) = timers w \<and>
   diagnosticsTimeout (fst (onDidOpenTextDocument h eng doc w)) = diagnosticsTimeout w"
  by (auto simp: onDidOpenTextDocument_def afterOpenClientFile_def catchOpenError_def Let_def
      split: option.splits sum.splits)

lemma oneTimer_step: "oneTimer w \<Longrightarrow> oneTimer (step h eng s w)"
proof (cases s)
  case (EngineEvent ev)
  then show "oneTimer w \<Longrightarrow> ?thesis" by (simp add: oneTimer_handle)
next
  case (DidOpen doc)
  then show "oneTimer w \<Longrightarrow> ?thesis" using onDidOpen_frame[of h eng doc w] by (simp add: oneTimer_def)
next
  case (DidClose u)
  then show "oneTimer w \<Longrightarrow> ?thesis" by (simp add: onDidCloseTextDocument_def Let_def oneTimer_def)
next
  case (DidSave t u)
  then show "oneTimer w \<Longrightarrow> ?thesis"
    by (simp add: onDidSaveTextDocument_def Let_def oneTimer_def split: option.splits)
next
  case (DefinitionRequest u pos)
  then show "oneTimer w \<Longrightarrow> ?thesis"
    by (simp add: onDefinition_def Let_def oneTimer_def split: option.splits)
next
  case (CompletionRequest u pos)
  then show "oneTimer w \<Longrightarrow> ?thesis" by simp
next
  case (Elapse n)
  then show "oneTimer w \<Longrightarrow> ?thesis" by (simp add: oneTimer_elapse)
qed

lemma oneTimer_run: "oneTimer w \<Longrightarrow> oneTimer (run h ss w)"
proof (induction ss arbitrary: w)
  case Nil
  then show ?case by simp
next
  case (Cons a ss)
  obtain eng s where a: "a = (eng, s)" by (cases a)
  from Cons.IH[OF oneTimer_step[OF Cons.prems]] a show ?case by simp
qed

lemma oneTimer_length: "oneTimer w \<Longrightarrow> length (timers w) \<le> 1"
  by (drule oneTimer_cases) auto

text \<open>
  C2. At most one timer is pending in every world the connection reaches, and it is the one
  \<open>diagnosticsTimeout\<close> refers to: a trigger call replaces the pending timer by a fresh
  one. The event handler triggers with the delay 200. After a burst of calls, each within
  the delay of the one before, nothing has been processed; nothing is processed before the
  delay of the last call has passed; when it has, the timer has fired once, at the time of
  the last call plus its delay, the pass has run over the last call's open files, in a world
  whose \<open>diagnosticsTimeout\<close> was already null, and no timer is left, so that nothing
  more is processed later.
\<close>

theorem debounce_coalescing:
  "oneTimer initialWorld \<and>
   (oneTimer w \<longrightarrow>
      length (timers w) \<le> 1 \<and> oneTimer (triggerDiagnostics fs d w) \<and> oneTimer (elapse h eng n w) \<and>
      oneTimer (run h ss w) \<and> oneTimer (burst h eng calls w) \<and>
      timers (triggerDiagnostics fs d w) = [\<lparr>handle = nextHandle w, due = clock w + d, captured = fs\<rparr>] \<and>
      diagnosticsTimeout (triggerDiagnostics fs d w) = Some (nextHandle w)) \<and>
   (timers w = [] \<and> diagnosticsTimeout w = None \<and> withinWindow da rest \<and>
    last ((ga, fsa, da) # rest) = (gl, fsl, dl) \<longrightarrow>
      trace (burst h eng ((ga, fsa, da) # rest) w) = trace w \<and>
      clock (burst h eng ((ga, fsa, da) # rest) w) = clock w + ga + sum_list (map fst rest) \<and>
      timers (burst h eng ((ga, fsa, da) # rest) w) =
        [\<lparr>handle = nextHandle w + length rest,
          due = clock (burst h eng ((ga, fsa, da) # rest) w) + dl, captured = fsl\<rparr>] \<and>
      (n < dl \<longrightarrow> trace (elapse h eng n (burst h eng ((ga, fsa, da) # rest) w)) = trace w) \<and>
      (dl \<le> n \<longrightarrow>
         elapse h eng n (burst h eng ((ga, fsa, da) # rest) w) =
           (sendPendingDiagnostics h eng fsl
              ((burst h eng ((ga, fsa, da) # rest) w)
                 \<lparr>clock := clock (burst h eng ((ga, fsa, da) # rest) w) + dl, timers := [],
                  trace := trace w @ [TimeoutFired (nextHandle w + length rest)
                                        (clock (burst h eng ((ga, fsa, da) # rest) w) + dl)],
                  diagnosticsTimeout := None\<rparr>))
           \<lparr>clock := clock (burst h eng ((ga, fsa, da) # rest) w) + n\<rparr> \<and>
         trace (elapse h eng m (elapse h eng n (burst h eng ((ga, fsa, da) # rest) w))) =
           trace (elapse h eng n (burst h eng ((ga, fsa, da) # rest) w)))) \<and>
   timerCallback h eng fs w = sendPendingDiagnostics h eng fs (w\<lparr>diagnosticsTimeout := None\<rparr>) \<and>
   fst (handleProjectServiceEvent h eng (ProjectsUpdatedInBackgroundEvent fs) w) =
     triggerDiagnostics fs 200 (emit (ConsoleLog ''handleProjectServiceEvent'') w)"
proof -
  have a: "oneTimer initialWorld" by (simp add: oneTimer_def initialWorld_def)
  have b: "oneTimer w \<longrightarrow>
      length (timers w) \<le> 1 \<and> oneTimer (triggerDiagnostics fs d w) \<and> oneTimer (elapse h eng n w) \<and>
      oneTimer (run h ss w) \<and> oneTimer (burst h eng calls w) \<and>
      timers (triggerDiagnostics fs d w) = [\<lparr>handle = nextHandle w, due = clock w + d, captured = fs\<rparr>] \<and>
      diagnosticsTimeout (triggerDiagnostics fs d w) = Some (nextHandle w)"
  proof
    assume o: "oneTimer w"
    from oneTimer_cases[OF o]
    have t: "timers (triggerDiagnostics fs d w) = [\<lparr>handle = nextHandle w, due = clock w + d, captured = fs\<rparr>] \<and>
      diagnosticsTimeout (triggerDiagnostics fs d w) = Some (nextHandle w)"
      by (auto simp: triggerDiagnostics_idle triggerDiagnostics_pending)
    from o t oneTimer_length[OF o] show "length (timers w) \<le> 1 \<and> oneTimer (triggerDiagnostics fs d w) \<and> oneTimer (elapse h eng n w) \<and>
      oneTimer (run h ss w) \<and> oneTimer (burst h eng calls w) \<and>
      timers (triggerDiagnostics fs d w) = [\<lparr>handle = nextHandle w, due = clock w + d, captured = fs\<rparr>] \<and>
      diagnosticsTimeout (triggerDiagnostics fs d w) = Some (nextHandle w)"
      by (simp add: oneTimer_trigger oneTimer_elapse oneTimer_run oneTimer_burst)
  qed
  have c: "timers w = [] \<and> diagnosticsTimeout w = None \<and> withinWindow da rest \<and>
    last ((ga, fsa, da) # rest) = (gl, fsl, dl) \<longrightarrow>
      trace (burst h eng ((ga, fsa, da) # rest) w) = trace w \<and>
      clock (burst h eng ((ga, fsa, da) # rest) w) = clock w + ga + sum_list (map fst rest) \<and>
      timers (burst h eng ((ga, fsa, da) # rest) w) =
        [\<lparr>handle = nextHandle w + length rest,
          due = clock (burst h eng ((ga, fsa, da) # rest) w) + dl, captured = fsl\<rparr>] \<and>
      (n < dl \<longrightarrow> trace (elapse h eng n (burst h eng ((ga, fsa, da) # rest) w)) = trace w) \<and>
      (dl \<le> n \<longrightarrow>
         elapse h eng n (burst h eng ((ga, fsa, da) # rest) w) =
           (sendPendingDiagnostics h eng fsl
              ((burst h eng ((ga, fsa, da) # rest) w)
                 \<lparr>clock := clock (burst h eng ((ga, fsa, da) # rest) w) + dl, timers := [],
                  trace := trace w @ [TimeoutFired (nextHandle w + length rest)
                                        (clock (burst h eng ((ga, fsa, da) # rest) w) + dl)],
                  diagnosticsTimeout := None\<rparr>))
           \<lparr>clock := clock (burst h eng ((ga, fsa, da) # rest) w) + n\<rparr> \<and>
         trace (elapse h eng m (elapse h eng n (burst h eng ((ga, fsa, da) # rest) w))) =
           trace (elapse h eng n (burst h eng ((ga, fsa, da) # rest) w)))"
  proof (intro impI, elim conjE)
    assume as: "timers w = []" "diagnosticsTimeout w = None" "withinWindow da rest"
      "last ((ga, fsa, da) # rest) = (gl, fsl, dl)"
    let ?b = "burst h eng ((ga, fsa, da) # rest) w"
    let ?t = "\<lparr>handle = nextHandle w + length rest,
               due = clock w + ga + sum_list (map fst rest) + dl, captured = fsl\<rparr>"
    note e = burst_idle[OF as, of h eng]
    note [simp del] = burst.simps
    have f1: "trace ?b = trace w" by (simp add: e)
    have f2: "clock ?b = clock w + ga + sum_list (map fst rest)" by (simp add: e)
    have f3: "timers ?b = [?t]" by (simp add: e)
    have f4: "n < dl \<longrightarrow> trace (elapse h eng n ?b) = trace w"
    proof
      assume "n < dl"
      then have "clock ?b + n < due ?t" by (simp add: f2)
      from elapse_not_due[OF f3 this, of h eng] f1 show "trace (elapse h eng n ?b) = trace w" by simp
    qed
    have f5: "dl \<le> n \<longrightarrow>
         elapse h eng n ?b =
           (sendPendingDiagnostics h eng fsl
              (?b\<lparr>clock := clock ?b + dl, timers := [],
                  trace := trace w @ [TimeoutFired (nextHandle w + length rest) (clock ?b + dl)],
                  diagnosticsTimeout := None\<rparr>))
           \<lparr>clock := clock ?b + n\<rparr> \<and>
         trace (elapse h eng m (elapse h eng n ?b)) = trace (elapse h eng n ?b)"
    proof
      assume "dl \<le> n"
      then have du: "due ?t \<le> clock ?b + n" by (simp add: f2)
      have mx: "max (clock ?b) (due ?t) = clock ?b + dl" by (simp add: f2)
      from elapse_due[OF f3 du, of h eng] have g: "elapse h eng n ?b =
           (sendPendingDiagnostics h eng fsl
              (?b\<lparr>clock := clock ?b + dl, timers := [],
                  trace := trace w @ [TimeoutFired (nextHandle w + length rest) (clock ?b + dl)],
                  diagnosticsTimeout := None\<rparr>))
           \<lparr>clock := clock ?b + n\<rparr>"
        unfolding mx by (simp add: f1)
      have "timers (elapse h eng n ?b) = []" by (subst g) simp
      from elapse_no_timer[OF this, of h eng m]
      have "trace (elapse h eng m (elapse h eng n ?b)) = trace (elapse h eng n ?b)" by simp
      with g show "elapse h eng n ?b =
           (sendPendingDiagnostics h eng fsl
              (?b\<lparr>clock := clock ?b + dl, timers := [],
                  trace := trace w @ [TimeoutFired (nextHandle w + length rest) (clock ?b + dl)],
                  diagnosticsTimeout := None\<rparr>))
           \<lparr>clock := clock ?b + n\<rparr> \<and>
         trace (elapse h eng m (elapse h eng n ?b)) = trace (elapse h eng n ?b)" by simp
    qed
    have f3': "timers ?b = [\<lparr>handle = nextHandle w + length rest, due = clock ?b + dl, captured = fsl\<rparr>]"
      using f3 f2 by simp
    from f1 f2 f3' f4 f5 show "trace ?b = trace w \<and>
      clock ?b = clock w + ga + sum_list (map fst rest) \<and>
      timers ?b = [\<lparr>handle = nextHandle w + length rest, due = clock ?b + dl, captured = fsl\<rparr>] \<and>
      (n < dl \<longrightarrow> trace (elapse h eng n ?b) = trace w) \<and>
      (dl \<le> n \<longrightarrow>
         elapse h eng n ?b =
           (sendPendingDiagnostics h eng fsl
              (?b\<lparr>clock := clock ?b + dl, timers := [],
                  trace := trace w @ [TimeoutFired (nextHandle w + length rest) (clock ?b + dl)],
                  diagnosticsTimeout := None\<rparr>))
           \<lparr>clock := clock ?b + n\<rparr> \<and>
         trace (elapse h eng m (elapse h eng n ?b)) = trace (elapse h eng n ?b))"
      by blast
  qed
  have d: "timerCallback h eng fs w = sendPendingDiagnostics h eng fs (w\<lparr>diagnosticsTimeout := None\<rparr>)"
    by (simp add: timerCallback_def)
  have e: "fst (handleProjectServiceEvent h eng (ProjectsUpdatedInBackgroundEvent fs) w) =
     triggerDiagnostics fs 200 (emit (ConsoleLog ''handleProjectServiceEvent'') w)"
    by (simp add: handleProjectServiceEvent_def Let_def)
  from a b c d e show ?thesis by blast
qed

theorem debounce_coalescing_witness:
  "oneTimer (burst demoHelpers demoEngine [(0, [''/ws/a.ts''], 200), (50, [''/ws/mod.ts''], 200)] initialWorld) \<and>
   timers (burst demoHelpers demoEngine [(0, [''/ws/a.ts''], 200), (50, [''/ws/mod.ts''], 200)] initialWorld) =
     [\<lparr>handle = 1, due = 250, captured = [''/ws/mod.ts'']\<rparr>] \<and>
   trace (elapse demoHelpers demoEngine 199
           (burst demoHelpers demoEngine [(0, [''/ws/a.ts''], 200), (50, [''/ws/mod.ts''], 200)] initialWorld)) = [] \<and>
   trace (elapse demoHelpers demoEngine 200
           (burst demoHelpers demoEngine [(0, [''/ws/a.ts''], 200), (50, [''/ws/mod.ts''], 200)] initialWorld)) =
     [TimeoutFired 1 250, SendDiagnostics ''file:///ws/mod.ts'' []]"
proof -
  note [simp del] = burst.simps
  let ?rest = "[(50::nat, [''/ws/mod.ts''], 200::nat)]"
  let ?b = "burst demoHelpers demoEngine ((0, [''/ws/a.ts''], 200) # ?rest) initialWorld"
  have i: "trace initialWorld = []" "clock initialWorld = 0" "nextHandle initialWorld = 0"
    by (simp_all add: initialWorld_def)
  have hyp: "timers initialWorld = [] \<and> diagnosticsTimeout initialWorld = None \<and> withinWindow 200 ?rest \<and>
    last ((0, [''/ws/a.ts''], 200) # ?rest) = (50, [''/ws/mod.ts''], 200)"
    by (simp add: initialWorld_def)
  note t1 = debounce_coalescing[where w = initialWorld and h = demoHelpers and eng = demoEngine
      and calls = "(0, [''/ws/a.ts''], 200) # ?rest"
      and ga = 0 and fsa = "[''/ws/a.ts'']" and da = 200 and rest = ?rest
      and gl = 50 and fsl = "[''/ws/mod.ts'']" and dl = 200 and n = 199]
  note t2 = debounce_coalescing[where w = initialWorld and h = demoHelpers and eng = demoEngine
      and ga = 0 and fsa = "[''/ws/a.ts'']" and da = 200 and rest = ?rest
      and gl = 50 and fsl = "[''/ws/mod.ts'']" and dl = 200 and n = 200]
  note hb = t1[THEN conjunct2, THEN conjunct1, THEN mp, OF t1[THEN conjunct1]]
  note o = hb[THEN conjunct2, THEN conjunct2, THEN conjunct2, THEN conjunct2, THEN conjunct1]
  note body1 = t1[THEN conjunct2, THEN conjunct2, THEN conjunct1, THEN mp, OF hyp]
  note body2 = t2[THEN conjunct2, THEN conjunct2, THEN conjunct1, THEN mp, OF hyp]
  have lt: "(199::nat) < 200" and le: "(200::nat) \<le> 200" by simp_all
  have c: "clock ?b = 50"
    using body1[THEN conjunct2, THEN conjunct1] by (simp add: i)
  have tm: "timers ?b = [\<lparr>handle = 1, due = 250, captured = [''/ws/mod.ts'']\<rparr>]"
    using body1[THEN conjunct2, THEN conjunct2, THEN conjunct1] by (simp add: i c)
  have q: "trace (elapse demoHelpers demoEngine 199 ?b) = []"
    using body1[THEN conjunct2, THEN conjunct2, THEN conjunct2, THEN conjunct1, THEN mp, OF lt]
    by (simp only: i)
  note f = body2[THEN conjunct2, THEN conjunct2, THEN conjunct2, THEN conjunct2, THEN mp, OF le,
      THEN conjunct1]
  have r: "getScriptInfo demoEngine ''/ws/mod.ts'' = Some demoScriptInfo"
    "getDefaultLanguageService demoEngine demoScriptInfo = Some demoService"
    "getSemanticDiagnostics demoService ''/ws/mod.ts'' = []"
    "filePathToUri demoHelpers ''/ws/mod.ts'' = ''file:///ws/mod.ts''"
    by (simp_all add: demoEngine_def demoService_def demoHelpers_def)
  have p: "trace (elapse demoHelpers demoEngine 200 ?b) =
      [TimeoutFired 1 250, SendDiagnostics ''file:///ws/mod.ts'' []]"
    unfolding f
    by (simp add: sendPendingDiagnostics_eq List.map_filter_simps i c r del: sendPendingDiagnostics.simps)
  from o tm q p show ?thesis by blast
qed

end
